theory Spec2Isabelle
  imports Main "HOL-Library.Sublist"
begin

section \<open>Strings\<close>

text \<open>
  A JavaScript string is a sequence of UTF-16 code units. It is modelled as the list of
  its code units; every letter used by the worker (Basic Latin and Bulgarian Cyrillic)
  is a single unit, equal to its code point. ASCII literals are written through
  \<open>asc\<close>, Cyrillic ones as their code points with a transliteration beside them.
\<close>

type_synonym jstring = "nat list"

definition asc :: "string \<Rightarrow> jstring" where
  "asc s = map of_char s"

text \<open>\<^verbatim>\<open>Array.prototype.join\<close>.\<close>

fun join :: "jstring \<Rightarrow> jstring list \<Rightarrow> jstring" where
  "join sep [] = []"
| "join sep [x] = x"
| "join sep (x # y # ys) = x @ sep @ join sep (y # ys)"

text \<open>\<^verbatim>\<open>String.prototype.startsWith\<close>.\<close>

fun startsWith :: "jstring \<Rightarrow> jstring \<Rightarrow> bool" where
  "startsWith s [] = True"
| "startsWith [] (p # ps) = False"
| "startsWith (c # cs) (p # ps) = (c = p \<and> startsWith cs ps)"

text \<open>\<^verbatim>\<open>String.prototype.includes\<close>: the pattern occurs at some position.\<close>

fun str_includes :: "jstring \<Rightarrow> jstring \<Rightarrow> bool" where
  "str_includes [] p = (p = [])"
| "str_includes (c # cs) p = (startsWith (c # cs) p \<or> str_includes cs p)"

text \<open>
  \<^verbatim>\<open>String.prototype.toLowerCase\<close> is a built-in of the language, driven by the Unicode
  case tables. The functions below take the lower-casing function as their first
  argument \<open>lc\<close>, so that the general results hold for whatever the tables say. The
  concrete \<open>toLowerCase\<close> covers the capital letters of Basic Latin and of the Cyrillic
  block and leaves every other unit alone; it is used on concrete inputs only.
\<close>

definition lower_unit :: "nat \<Rightarrow> nat" where
  "lower_unit c =
     (if 65 \<le> c \<and> c \<le> 90 then c + 32
      else if 1040 \<le> c \<and> c \<le> 1071 then c + 32
      else if 1024 \<le> c \<and> c \<le> 1039 then c + 80
      else c)"

definition toLowerCase :: "jstring \<Rightarrow> jstring" where
  "toLowerCase s = map lower_unit s"

text \<open>Truthiness of an optional string: \<^verbatim>\<open>undefined\<close> and the empty string are falsy.\<close>

definition truthy_str :: "jstring option \<Rightarrow> bool" where
  "truthy_str v = (case v of None \<Rightarrow> False | Some s \<Rightarrow> s \<noteq> [])"

section \<open>Universal keyword patterns\<close>

text \<open>\<^verbatim>\<open>PATTERNS.booking\<close>; the Cyrillic entries, transliterated: rezerv, zapazi, nalichnost, svobodn, noshtuvk.\<close>

definition PATTERNS_booking :: "jstring list" where
  "PATTERNS_booking =
    [[1088, 1077, 1079, 1077, 1088, 1074],
     asc ''book'',
     [1079, 1072, 1087, 1072, 1079, 1080],
     [1085, 1072, 1083, 1080, 1095, 1085, 1086, 1089, 1090],
     [1089, 1074, 1086, 1073, 1086, 1076, 1085],
     asc ''availability'',
     asc ''reserve'',
     [1085, 1086, 1097, 1091, 1074, 1082]]"

text \<open>\<^verbatim>\<open>PATTERNS.check_in\<close>; the Cyrillic entries, transliterated: ot, nastanyavane, pristigane.\<close>

definition PATTERNS_check_in :: "jstring list" where
  "PATTERNS_check_in =
    [[1086, 1090],
     asc ''check-in'',
     asc ''checkin'',
     [1085, 1072, 1089, 1090, 1072, 1085, 1103, 1074, 1072, 1085, 1077],
     [1087, 1088, 1080, 1089, 1090, 1080, 1075, 1072, 1085, 1077],
     asc ''arrival'',
     asc ''from'',
     asc ''start'']"

text \<open>\<^verbatim>\<open>PATTERNS.check_out\<close>; the Cyrillic entries, transliterated: do, napuskane, zaminavane.\<close>

definition PATTERNS_check_out :: "jstring list" where
  "PATTERNS_check_out =
    [[1076, 1086],
     asc ''check-out'',
     asc ''checkout'',
     [1085, 1072, 1087, 1091, 1089, 1082, 1072, 1085, 1077],
     [1079, 1072, 1084, 1080, 1085, 1072, 1074, 1072, 1085, 1077],
     asc ''departure'',
     asc ''to'',
     asc ''end'']"

text \<open>\<^verbatim>\<open>PATTERNS.guests\<close>; the Cyrillic entries, transliterated: choveka, dushi, gosti, dvama, trima, vazrastni, broy.\<close>

definition PATTERNS_guests :: "jstring list" where
  "PATTERNS_guests =
    [[1095, 1086, 1074, 1077, 1082, 1072],
     [1076, 1091, 1096, 1080],
     [1075, 1086, 1089, 1090, 1080],
     asc ''guests'',
     asc ''adults'',
     asc ''persons'',
     [1076, 1074, 1072, 1084, 1072],
     [1090, 1088, 1080, 1084, 1072],
     [1074, 1098, 1079, 1088, 1072, 1089, 1090, 1085, 1080],
     [1073, 1088, 1086, 1081]]"

text \<open>\<^verbatim>\<open>PATTERNS.prices\<close>; the Cyrillic entries, transliterated: tsena, tseni, struva, kolko, tarif.\<close>

definition PATTERNS_prices :: "jstring list" where
  "PATTERNS_prices =
    [[1094, 1077, 1085, 1072],
     [1094, 1077, 1085, 1080],
     asc ''price'',
     [1089, 1090, 1088, 1091, 1074, 1072],
     [1082, 1086, 1083, 1082, 1086],
     asc ''cost'',
     asc ''rate'',
     [1090, 1072, 1088, 1080, 1092]]"

text \<open>\<^verbatim>\<open>PATTERNS.contact\<close>; the Cyrillic entries, transliterated: kontakt, svarzhi, obadi, telefon, imeyl.\<close>

definition PATTERNS_contact :: "jstring list" where
  "PATTERNS_contact =
    [[1082, 1086, 1085, 1090, 1072, 1082, 1090],
     asc ''contact'',
     [1089, 1074, 1098, 1088, 1078, 1080],
     [1086, 1073, 1072, 1076, 1080],
     [1090, 1077, 1083, 1077, 1092, 1086, 1085],
     [1080, 1084, 1077, 1081, 1083],
     asc ''email'']"

text \<open>\<^verbatim>\<open>PATTERNS.search\<close>; the Cyrillic entries, transliterated: tarsi, proveri, pokazhi.\<close>

definition PATTERNS_search :: "jstring list" where
  "PATTERNS_search =
    [[1090, 1098, 1088, 1089, 1080],
     asc ''search'',
     asc ''find'',
     [1087, 1088, 1086, 1074, 1077, 1088, 1080],
     asc ''check'',
     [1087, 1086, 1082, 1072, 1078, 1080],
     asc ''show'']"

text \<open>\<^verbatim>\<open>PATTERNS.rooms\<close>; the Cyrillic entries, transliterated: staya, stai, apartament, nastanyavane.\<close>

definition PATTERNS_rooms :: "jstring list" where
  "PATTERNS_rooms =
    [[1089, 1090, 1072, 1103],
     [1089, 1090, 1072, 1080],
     asc ''room'',
     asc ''rooms'',
     [1072, 1087, 1072, 1088, 1090, 1072, 1084, 1077, 1085, 1090],
     asc ''suite'',
     [1085, 1072, 1089, 1090, 1072, 1085, 1103, 1074, 1072, 1085, 1077]]"

section \<open>Types\<close>

datatype action_type = Booking | Contact | Navigation | Submit | Other

record SiteMapButton =
  b_text :: jstring
  b_selector :: jstring
  b_keywords :: "jstring list"
  b_action_type :: action_type

datatype field_type = Date | Number | Text | Select

record SiteMapField =
  f_name :: jstring
  f_selector :: jstring
  f_type :: field_type
  f_keywords :: "jstring list"

record SiteMapForm =
  form_selector :: jstring
  form_fields :: "SiteMapField list"
  submit_button :: jstring

record PriceEntry =
  p_text :: jstring
  p_context :: jstring

record SiteMap =
  site_id :: jstring
  url :: jstring
  buttons :: "SiteMapButton list"
  forms :: "SiteMapForm list"
  prices :: "PriceEntry list"

text \<open>
  A JSON number is a double. The worker looks at \<^verbatim>\<open>data.guests\<close> in two ways only: as a
  condition (0 and NaN are falsy) and through \<^verbatim>\<open>String(data.guests)\<close>. A number is modelled
  by these two observations, so that nothing is said about how a double prints.
  \<open>safeInteger i\<close> is the number of an integer of magnitude at most \<open>2 ^ 53 - 1\<close>, which
  prints as its decimal digits; it is used on concrete inputs only.
\<close>

datatype js_number = JSNumber (num_truthy: bool) (num_String: jstring)

fun digits :: "nat \<Rightarrow> jstring" where
  "digits n = (if n < 10 then [48 + n] else digits (n div 10) @ [48 + n mod 10])"

definition String_int :: "int \<Rightarrow> jstring" where
  "String_int i = (if i < 0 then 45 # digits (nat (- i)) else digits (nat i))"

definition safeInteger :: "int \<Rightarrow> js_number" where
  "safeInteger i = JSNumber (i \<noteq> 0) (String_int i)"

text \<open>The optional \<^verbatim>\<open>data\<close> of an \<^verbatim>\<open>ExecuteRequest\<close>.\<close>

record RequestData =
  check_in :: "jstring option"
  check_out :: "jstring option"
  guests :: "js_number option"

record ExecuteRequest =
  req_site_id :: jstring
  req_keywords :: "jstring list"
  req_data :: "RequestData option"

text \<open>
  The descriptor returned by \<^verbatim>\<open>matchAction\<close>: the \<^verbatim>\<open>type\<close> tag with the arguments the
  variant carries (form and data; selector and buttonText; url).
\<close>

datatype ActionDescriptor =
  Fill_form SiteMapForm "RequestData option"
| Click jstring jstring
| Return_prices
| Return_contact
| Navigate jstring
| Observe

section \<open>Messages\<close>

text \<open>Nyama aktivna sesiya. Molya, izchakayte zarezhdane.\<close>
definition msg_no_session :: jstring where
  "msg_no_session =
    [1053, 1103, 1084, 1072, 32, 1072, 1082, 1090, 1080, 1074, 1085, 1072, 32, 1089, 1077, 1089, 1080, 1103, 46, 32, 1052, 1086, 1083, 1103, 44, 32, 1080, 1079, 1095, 1072, 1082, 1072, 1081, 1090, 1077, 32, 1079, 1072, 1088, 1077, 1078, 1076, 1072, 1085, 1077, 46]"

text \<open>Greshka pri vazstanovyavane na sesiyata\<close>
definition msg_recovery_failed :: jstring where
  "msg_recovery_failed =
    [1043, 1088, 1077, 1096, 1082, 1072, 32, 1087, 1088, 1080, 32, 1074, 1098, 1079, 1089, 1090, 1072, 1085, 1086, 1074, 1103, 1074, 1072, 1085, 1077, 32, 1085, 1072, 32, 1089, 1077, 1089, 1080, 1103, 1090, 1072]"

text \<open>Greshka pri izpalnenie\<close>
definition msg_execute_error :: jstring where
  "msg_execute_error =
    [1043, 1088, 1077, 1096, 1082, 1072, 32, 1087, 1088, 1080, 32, 1080, 1079, 1087, 1098, 1083, 1085, 1077, 1085, 1080, 1077]"

text \<open>Tarsene\<close>
definition msg_search :: jstring where
  "msg_search =
    [1058, 1098, 1088, 1089, 1077, 1085, 1077]"

text \<open>Popalnih: \<close>
definition msg_filled :: jstring where
  "msg_filled =
    [1055, 1086, 1087, 1098, 1083, 1085, 1080, 1093, 58, 32]"

text \<open>Ne uspyah da popalnya formata\<close>
definition msg_fill_failed :: jstring where
  "msg_fill_failed =
    [1053, 1077, 32, 1091, 1089, 1087, 1103, 1093, 32, 1076, 1072, 32, 1087, 1086, 1087, 1098, 1083, 1085, 1103, 32, 1092, 1086, 1088, 1084, 1072, 1090, 1072]"

text \<open>Kliknah\<close>
definition msg_clicked :: jstring where
  "msg_clicked =
    [1050, 1083, 1080, 1082, 1085, 1072, 1093]"

text \<open>Ne uspyah da klikna\<close>
definition msg_click_failed :: jstring where
  "msg_click_failed =
    [1053, 1077, 32, 1091, 1089, 1087, 1103, 1093, 32, 1076, 1072, 32, 1082, 1083, 1080, 1082, 1085, 1072]"

text \<open>Ne namerih tseni na sayta\<close>
definition msg_no_prices :: jstring where
  "msg_no_prices =
    [1053, 1077, 32, 1085, 1072, 1084, 1077, 1088, 1080, 1093, 32, 1094, 1077, 1085, 1080, 32, 1085, 1072, 32, 1089, 1072, 1081, 1090, 1072]"

text \<open>Tseni: \<close>
definition msg_prices :: jstring where
  "msg_prices =
    [1062, 1077, 1085, 1080, 58, 32]"

text \<open>Telefon: \<close>
definition msg_phone :: jstring where
  "msg_phone =
    [1058, 1077, 1083, 1077, 1092, 1086, 1085, 58, 32]"

text \<open>Ne namerih kontaktna informatsiya na tazi stranitsa\<close>
definition msg_no_contact :: jstring where
  "msg_no_contact =
    [1053, 1077, 32, 1085, 1072, 1084, 1077, 1088, 1080, 1093, 32, 1082, 1086, 1085, 1090, 1072, 1082, 1090, 1085, 1072, 32, 1080, 1085, 1092, 1086, 1088, 1084, 1072, 1094, 1080, 1103, 32, 1085, 1072, 32, 1090, 1072, 1079, 1080, 32, 1089, 1090, 1088, 1072, 1085, 1080, 1094, 1072]"

text \<open>Ne uspyah da izvleka kontaktite\<close>
definition msg_contact_failed :: jstring where
  "msg_contact_failed =
    [1053, 1077, 32, 1091, 1089, 1087, 1103, 1093, 32, 1076, 1072, 32, 1080, 1079, 1074, 1083, 1077, 1082, 1072, 32, 1082, 1086, 1085, 1090, 1072, 1082, 1090, 1080, 1090, 1077]"

text \<open>Otvorih \<close>
definition msg_opened :: jstring where
  "msg_opened =
    [1054, 1090, 1074, 1086, 1088, 1080, 1093, 32]"

text \<open>Ne uspyah da otvorya stranitsata\<close>
definition msg_open_failed :: jstring where
  "msg_open_failed =
    [1053, 1077, 32, 1091, 1089, 1087, 1103, 1093, 32, 1076, 1072, 32, 1086, 1090, 1074, 1086, 1088, 1103, 32, 1089, 1090, 1088, 1072, 1085, 1080, 1094, 1072, 1090, 1072]"

text \<open>Stranitsa: (double quote)\<close>
definition msg_page :: jstring where
  "msg_page =
    [1057, 1090, 1088, 1072, 1085, 1080, 1094, 1072, 58, 32, 34]"

text \<open>. Vizhdam informatsiya za nalichnost.\<close>
definition msg_availability :: jstring where
  "msg_availability =
    [46, 32, 1042, 1080, 1078, 1076, 1072, 1084, 32, 1080, 1085, 1092, 1086, 1088, 1084, 1072, 1094, 1080, 1103, 32, 1079, 1072, 32, 1085, 1072, 1083, 1080, 1095, 1085, 1086, 1089, 1090, 46]"

text \<open>. Tseni: \<close>
definition msg_dot_prices :: jstring where
  "msg_dot_prices =
    [46, 32, 1062, 1077, 1085, 1080, 58, 32]"

section \<open>Action matching\<close>

text \<open>
  A field makes its form a booking form when it is date-typed or one of its declared
  keywords is a check-in or check-out word (the keywords are not lower-cased here).
\<close>

definition dateField :: "SiteMapField \<Rightarrow> bool" where
  "dateField field =
     (f_type field = Date
      \<or> (\<exists>k\<in>set PATTERNS_check_in. k \<in> set (f_keywords field))
      \<or> (\<exists>k\<in>set PATTERNS_check_out. k \<in> set (f_keywords field)))"

definition bookingForm :: "SiteMapForm \<Rightarrow> bool" where
  "bookingForm f = (\<exists>field\<in>set (form_fields f). dateField field)"

definition hasDates :: "RequestData option \<Rightarrow> bool" where
  "hasDates data =
     (case data of None \<Rightarrow> False
      | Some d \<Rightarrow> truthy_str (check_in d) \<or> truthy_str (check_out d))"

definition clickOn :: "SiteMapButton \<Rightarrow> ActionDescriptor" where
  "clickOn b = Click (b_selector b) (b_text b)"

text \<open>Rule 1, booking: a form with date fields, else a booking button.\<close>

definition rule_booking ::
  "(jstring \<Rightarrow> jstring) \<Rightarrow> jstring \<Rightarrow> SiteMap \<Rightarrow> RequestData option \<Rightarrow> ActionDescriptor option" where
  "rule_booking lc joined siteMap data =
     (if (\<exists>p\<in>set PATTERNS_booking. str_includes joined p) \<or> hasDates data then
        (case find bookingForm (forms siteMap) of
           Some form \<Rightarrow> Some (Fill_form form data)
         | None \<Rightarrow>
            (case find (\<lambda>b. b_action_type b = Booking
                        \<or> (\<exists>p\<in>set PATTERNS_booking. str_includes (lc (b_text b)) p))
                    (buttons siteMap) of
               Some bookBtn \<Rightarrow> Some (clickOn bookBtn)
             | None \<Rightarrow> None))
      else None)"

text \<open>Rule 2, prices.\<close>

definition rule_prices :: "jstring \<Rightarrow> SiteMap \<Rightarrow> ActionDescriptor option" where
  "rule_prices joined siteMap =
     (if (\<exists>p\<in>set PATTERNS_prices. str_includes joined p) \<and> prices siteMap \<noteq> []
      then Some Return_prices else None)"

text \<open>Rule 3, contact: a contact button, else live extraction.\<close>

definition rule_contact ::
  "(jstring \<Rightarrow> jstring) \<Rightarrow> jstring \<Rightarrow> SiteMap \<Rightarrow> ActionDescriptor option" where
  "rule_contact lc joined siteMap =
     (if \<exists>p\<in>set PATTERNS_contact. str_includes joined p then
        (case find (\<lambda>b. b_action_type b = Contact
                    \<or> (\<exists>p\<in>set PATTERNS_contact. str_includes (lc (b_text b)) p))
                (buttons siteMap) of
           Some contactBtn \<Rightarrow> Some (clickOn contactBtn)
         | None \<Rightarrow> Some Return_contact)
      else None)"

text \<open>Rule 4, rooms: falls through when no button matches.\<close>

definition rule_rooms ::
  "(jstring \<Rightarrow> jstring) \<Rightarrow> jstring \<Rightarrow> SiteMap \<Rightarrow> ActionDescriptor option" where
  "rule_rooms lc joined siteMap =
     (if \<exists>p\<in>set PATTERNS_rooms. str_includes joined p then
        map_option clickOn
          (find (\<lambda>b. \<exists>p\<in>set PATTERNS_rooms. str_includes (lc (b_text b)) p) (buttons siteMap))
      else None)"

text \<open>Rule 5, search or check button.\<close>

definition rule_search ::
  "(jstring \<Rightarrow> jstring) \<Rightarrow> jstring \<Rightarrow> SiteMap \<Rightarrow> ActionDescriptor option" where
  "rule_search lc joined siteMap =
     (if \<exists>p\<in>set PATTERNS_search. str_includes joined p then
        map_option clickOn
          (find (\<lambda>b. b_action_type b = Submit
                  \<or> (\<exists>p\<in>set PATTERNS_search. str_includes (lc (b_text b)) p))
             (buttons siteMap))
      else None)"

text \<open>Rule 6: the first button one of whose lower-cased keywords is a lower-cased request keyword.\<close>

definition rule_keywords ::
  "(jstring \<Rightarrow> jstring) \<Rightarrow> jstring list \<Rightarrow> SiteMap \<Rightarrow> ActionDescriptor option" where
  "rule_keywords lc keywords siteMap =
     map_option clickOn
       (find (\<lambda>btn. \<exists>kw\<in>set keywords. lc kw \<in> set (map lc (b_keywords btn))) (buttons siteMap))"

text \<open>The cascade: each rule returns from the function when it fires; the default is \<open>Observe\<close>.\<close>

definition matchAction ::
  "(jstring \<Rightarrow> jstring) \<Rightarrow> jstring list \<Rightarrow> SiteMap \<Rightarrow> RequestData option \<Rightarrow> ActionDescriptor" where
  "matchAction lc keywords siteMap data =
     (let joined = lc (join (asc '' '') keywords) in
      case rule_booking lc joined siteMap data of Some a \<Rightarrow> a | None \<Rightarrow>
      (case rule_prices joined siteMap of Some a \<Rightarrow> a | None \<Rightarrow>
      (case rule_contact lc joined siteMap of Some a \<Rightarrow> a | None \<Rightarrow>
      (case rule_rooms lc joined siteMap of Some a \<Rightarrow> a | None \<Rightarrow>
      (case rule_search lc joined siteMap of Some a \<Rightarrow> a | None \<Rightarrow>
      (case rule_keywords lc keywords siteMap of Some a \<Rightarrow> a | None \<Rightarrow> Observe))))))"

section \<open>Static price report\<close>

definition formatPrice :: "PriceEntry \<Rightarrow> jstring" where
  "formatPrice p = (if p_context p \<noteq> [] then p_context p @ asc '': '' @ p_text p else p_text p)"

definition formatPrices :: "PriceEntry list \<Rightarrow> jstring" where
  "formatPrices ps =
     (if ps = [] then msg_no_prices
      else msg_prices @ join (asc ''; '') (map formatPrice (take 5 ps)))"


section \<open>The automation driver\<close>

text \<open>
  The page snapshot computed inside the browser by \<^verbatim>\<open>quickObserve\<close>. When the evaluation
  throws, the worker falls back to an object with \<^verbatim>\<open>url\<close>, \<^verbatim>\<open>title\<close> and \<^verbatim>\<open>prices\<close> only, so
  the other properties are optional.
\<close>

record snapshot =
  o_url :: jstring
  o_title :: jstring
  o_prices :: "jstring list"
  hasAvailability :: "bool option"
  noAvailability :: "bool option"
  textSnippet :: "jstring option"

datatype Observation = Snapshot snapshot | PriceList "PriceEntry list"

record ActionResult =
  message :: jstring
  observation :: "Observation option"

text \<open>
  Playwright is an external collaborator. Its calls are functions of a world state \<open>'w\<close>
  (the browser, the network, the clock) that return the new world with the outcome:
  \<open>False\<close> and \<open>None\<close> stand for a rejected promise (the call throws). \<open>'p\<close> and \<open>'c\<close> are
  the page and context handles. \<open>query\<close> is \<^verbatim>\<open>page.$\<close>: \<open>Some True\<close> for an element,
  \<open>Some False\<close> for \<^verbatim>\<open>null\<close>. \<open>evaluate_true\<close> is the liveness probe
  \<^verbatim>\<open>page.evaluate(() => true)\<close>; \<open>innerText\<close> evaluates \<^verbatim>\<open>document.body.innerText\<close>;
  \<open>page_snapshot\<close> evaluates the script of \<^verbatim>\<open>quickObserve\<close>; \<open>now\<close> is \<^verbatim>\<open>Date.now()\<close>.
  The numeric arguments are the timeouts in milliseconds.
\<close>

record ('w, 'p, 'c) driver =
  newContext :: "'w \<Rightarrow> 'c option \<times> 'w"
  newPage :: "'c \<Rightarrow> 'w \<Rightarrow> 'p option \<times> 'w"
  goto :: "'p \<Rightarrow> jstring \<Rightarrow> nat \<Rightarrow> 'w \<Rightarrow> bool \<times> 'w"
  waitForTimeout :: "'p \<Rightarrow> nat \<Rightarrow> 'w \<Rightarrow> bool \<times> 'w"
  page_url :: "'p \<Rightarrow> 'w \<Rightarrow> jstring"
  evaluate_true :: "'p \<Rightarrow> 'w \<Rightarrow> bool \<times> 'w"
  query :: "'p \<Rightarrow> jstring \<Rightarrow> 'w \<Rightarrow> bool option \<times> 'w"
  fill :: "'p \<Rightarrow> jstring \<Rightarrow> jstring \<Rightarrow> nat \<Rightarrow> 'w \<Rightarrow> bool \<times> 'w"
  selectOption :: "'p \<Rightarrow> jstring \<Rightarrow> jstring \<Rightarrow> nat \<Rightarrow> 'w \<Rightarrow> bool \<times> 'w"
  click :: "'p \<Rightarrow> jstring \<Rightarrow> nat \<Rightarrow> 'w \<Rightarrow> bool \<times> 'w"
  innerText :: "'p \<Rightarrow> 'w \<Rightarrow> jstring option \<times> 'w"
  page_snapshot :: "'p \<Rightarrow> 'w \<Rightarrow> snapshot option \<times> 'w"
  close_page :: "'p \<Rightarrow> 'w \<Rightarrow> bool \<times> 'w"
  close_context :: "'c \<Rightarrow> 'w \<Rightarrow> bool \<times> 'w"
  now :: "'w \<Rightarrow> nat"

section \<open>Actions\<close>

definition quickObserve :: "('w, 'p, 'c) driver \<Rightarrow> 'p \<Rightarrow> 'w \<Rightarrow> snapshot \<times> 'w" where
  "quickObserve drv page w =
     (case page_snapshot drv page w of
        (Some s, w1) \<Rightarrow> (s, w1)
      | (None, w1) \<Rightarrow>
          (\<lparr>o_url = [], o_title = [], o_prices = [], hasAvailability = None,
            noAvailability = None, textSnippet = None\<rparr>, w1))"

subsection \<open>fillForm\<close>

datatype js_error = TypeError

definition dq :: jstring where
  "dq = [34]"

text \<open>Truthiness of an optional number: \<^verbatim>\<open>undefined\<close>, 0 and NaN are falsy.\<close>

definition truthy_num :: "js_number option \<Rightarrow> bool" where
  "truthy_num v = (case v of None \<Rightarrow> False | Some n \<Rightarrow> num_truthy n)"

definition matchesVocabulary :: "(jstring \<Rightarrow> jstring) \<Rightarrow> jstring list \<Rightarrow> SiteMapField \<Rightarrow> bool" where
  "matchesVocabulary lc vocabulary field =
     (\<exists>k\<in>set vocabulary. k \<in> set (map lc (f_keywords field)))"

text \<open>
  The value chosen for a field when the request carries data: the first of check-in,
  check-out and guests whose vocabulary meets the field's lower-cased keywords and whose
  datum is truthy.
\<close>

definition resolveValue :: "(jstring \<Rightarrow> jstring) \<Rightarrow> SiteMapField \<Rightarrow> RequestData \<Rightarrow> jstring option" where
  "resolveValue lc field d =
     (if matchesVocabulary lc PATTERNS_check_in field \<and> truthy_str (check_in d) then check_in d
      else if matchesVocabulary lc PATTERNS_check_out field \<and> truthy_str (check_out d)
        then check_out d
      else if matchesVocabulary lc PATTERNS_guests field \<and> truthy_num (guests d)
        then map_option num_String (guests d)
      else None)"

text \<open>
  \<^verbatim>\<open>execute\<close> passes \<^verbatim>\<open>action.data!\<close>, which is \<^verbatim>\<open>undefined\<close> when the request has no data:
  then the first vocabulary that meets the field makes the property access
  \<^verbatim>\<open>data.check_in\<close> (or its siblings) throw a TypeError.
\<close>

definition fieldValue ::
  "(jstring \<Rightarrow> jstring) \<Rightarrow> SiteMapField \<Rightarrow> RequestData option \<Rightarrow> js_error + jstring option" where
  "fieldValue lc field data =
     (case data of
        Some d \<Rightarrow> Inr (resolveValue lc field d)
      | None \<Rightarrow>
          (if matchesVocabulary lc PATTERNS_check_in field
              \<or> matchesVocabulary lc PATTERNS_check_out field
              \<or> matchesVocabulary lc PATTERNS_guests field
           then Inl TypeError else Inr None))"

text \<open>The three selector strategies of a field; \<^verbatim>\<open>filter(Boolean)\<close> drops an empty selector.\<close>

definition fieldSelectors :: "SiteMapField \<Rightarrow> jstring list" where
  "fieldSelectors field =
     filter (\<lambda>s. s \<noteq> [])
       [f_selector field,
        asc ''[name='' @ dq @ f_name field @ dq @ asc '']'',
        asc ''#'' @ f_name field]"

text \<open>
  The inner loop over the selectors. A selector that throws, finds nothing, or whose
  fill or select throws, is passed over; the first success ends the loop.
\<close>

fun trySelectors ::
  "('w, 'p, 'c) driver \<Rightarrow> 'p \<Rightarrow> SiteMapField \<Rightarrow> jstring \<Rightarrow> jstring list \<Rightarrow> 'w \<Rightarrow> bool \<times> 'w" where
  "trySelectors drv page field v [] w = (False, w)"
| "trySelectors drv page field v (sel # sels) w =
     (case query drv page sel w of
        (Some True, w1) \<Rightarrow>
          (case (if f_type field = Select then selectOption drv page sel v 2000 w1
                 else fill drv page sel v 2000 w1) of
             (True, w2) \<Rightarrow> (True, w2)
           | (False, w2) \<Rightarrow> trySelectors drv page field v sels w2)
      | (_, w1) \<Rightarrow> trySelectors drv page field v sels w1)"

text \<open>\<^verbatim>\<open>field.name.replace(/[-_]/g, " ")\<close>.\<close>

definition fieldLabel :: "SiteMapField \<Rightarrow> jstring" where
  "fieldLabel field = map (\<lambda>c. if c = 45 \<or> c = 95 then 32 else c) (f_name field)"

definition fieldEntry :: "SiteMapField \<Rightarrow> jstring \<Rightarrow> jstring" where
  "fieldEntry field v = fieldLabel field @ asc '': '' @ v"

text \<open>
  The loop over the fields, with the list \<^verbatim>\<open>actions\<close> as accumulator. A thrown TypeError
  leaves the loop with the world as it is then.
\<close>

fun fillFields ::
  "(jstring \<Rightarrow> jstring) \<Rightarrow> ('w, 'p, 'c) driver \<Rightarrow> 'p \<Rightarrow> RequestData option \<Rightarrow> SiteMapField list
   \<Rightarrow> jstring list \<Rightarrow> 'w \<Rightarrow> (js_error \<times> 'w) + (jstring list \<times> 'w)" where
  "fillFields lc drv page data [] actions w = Inr (actions, w)"
| "fillFields lc drv page data (field # rest) actions w =
     (case fieldValue lc field data of
        Inl e \<Rightarrow> Inl (e, w)
      | Inr val \<Rightarrow>
          (if truthy_str val then
             (case trySelectors drv page field (the val) (fieldSelectors field) w of
                (True, w1) \<Rightarrow>
                  fillFields lc drv page data rest (actions @ [fieldEntry field (the val)]) w1
              | (False, w1) \<Rightarrow> fillFields lc drv page data rest actions w1)
           else fillFields lc drv page data rest actions w))"

text \<open>The submit click after at least one filled field; a failure of the click or of the wait is swallowed.\<close>

definition clickSubmit ::
  "('w, 'p, 'c) driver \<Rightarrow> 'p \<Rightarrow> SiteMapForm \<Rightarrow> jstring list \<Rightarrow> 'w \<Rightarrow> jstring list \<times> 'w" where
  "clickSubmit drv page form actions w =
     (if submit_button form \<noteq> [] \<and> actions \<noteq> [] then
        (case click drv page (submit_button form) 3000 w of
           (True, w1) \<Rightarrow>
             (case waitForTimeout drv page 1500 w1 of
                (True, w2) \<Rightarrow> (actions @ [msg_search], w2)
              | (False, w2) \<Rightarrow> (actions, w2))
         | (False, w1) \<Rightarrow> (actions, w1))
      else (actions, w))"

text \<open>
  \<^verbatim>\<open>fillForm\<close>. The declared type makes \<^verbatim>\<open>form.fields\<close> an array, so the guard for a
  missing one is not modelled.
\<close>

definition fillForm ::
  "(jstring \<Rightarrow> jstring) \<Rightarrow> ('w, 'p, 'c) driver \<Rightarrow> 'p \<Rightarrow> SiteMapForm \<Rightarrow> RequestData option \<Rightarrow> 'w
   \<Rightarrow> (js_error \<times> 'w) + (ActionResult \<times> 'w)" where
  "fillForm lc drv page form data w =
     (case fillFields lc drv page data (form_fields form) [] w of
        Inl e \<Rightarrow> Inl e
      | Inr (filled, w1) \<Rightarrow>
          (case clickSubmit drv page form filled w1 of
             (actions, w2) \<Rightarrow>
               (case quickObserve drv page w2 of
                  (obs, w3) \<Rightarrow>
                    Inr (\<lparr>message =
                            (if actions \<noteq> [] then msg_filled @ join (asc '', '') actions
                             else msg_fill_failed),
                          observation = Some (Snapshot obs)\<rparr>, w3))))"

subsection \<open>clickButton\<close>

text \<open>
  The four strategies. The last three are \<^verbatim>\<open>buttonText && await page.click(...)\<close>: with a
  falsy \<^verbatim>\<open>buttonText\<close> (none, or the empty string) they resolve without clicking.
\<close>

definition textStrategy ::
  "('w, 'p, 'c) driver \<Rightarrow> 'p \<Rightarrow> jstring option \<Rightarrow> jstring \<Rightarrow> jstring \<Rightarrow> 'w \<Rightarrow> bool \<times> 'w" where
  "textStrategy drv page buttonText opening closing w =
     (if truthy_str buttonText then click drv page (opening @ the buttonText @ closing) 2000 w
      else (True, w))"

definition strategies ::
  "('w, 'p, 'c) driver \<Rightarrow> 'p \<Rightarrow> jstring \<Rightarrow> jstring option \<Rightarrow> ('w \<Rightarrow> bool \<times> 'w) list" where
  "strategies drv page selector buttonText =
     [click drv page selector 2000,
      textStrategy drv page buttonText (asc ''text='' @ dq) dq,
      textStrategy drv page buttonText (asc ''button:has-text('' @ dq) (dq @ asc '')''),
      textStrategy drv page buttonText (asc ''a:has-text('' @ dq) (dq @ asc '')'')]"

definition clickedMessage :: "jstring option \<Rightarrow> jstring" where
  "clickedMessage buttonText =
     (if truthy_str buttonText then msg_clicked @ asc '' '' @ dq @ the buttonText @ dq
      else msg_clicked)"

text \<open>The loop over the strategies: the first whose call and settle wait both resolve returns.\<close>

fun tryStrategies ::
  "('w, 'p, 'c) driver \<Rightarrow> 'p \<Rightarrow> jstring option \<Rightarrow> ('w \<Rightarrow> bool \<times> 'w) list \<Rightarrow> 'w \<Rightarrow> ActionResult \<times> 'w" where
  "tryStrategies drv page buttonText [] w =
     (\<lparr>message = msg_click_failed, observation = None\<rparr>, w)"
| "tryStrategies drv page buttonText (strategy # rest) w =
     (case strategy w of
        (True, w1) \<Rightarrow>
          (case waitForTimeout drv page 1000 w1 of
             (True, w2) \<Rightarrow>
               (case quickObserve drv page w2 of
                  (obs, w3) \<Rightarrow>
                    (\<lparr>message = clickedMessage buttonText, observation = Some (Snapshot obs)\<rparr>, w3))
           | (False, w2) \<Rightarrow> tryStrategies drv page buttonText rest w2)
      | (False, w1) \<Rightarrow> tryStrategies drv page buttonText rest w1)"

definition clickButton ::
  "('w, 'p, 'c) driver \<Rightarrow> 'p \<Rightarrow> jstring \<Rightarrow> jstring option \<Rightarrow> 'w \<Rightarrow> ActionResult \<times> 'w" where
  "clickButton drv page selector buttonText w =
     tryStrategies drv page buttonText (strategies drv page selector buttonText) w"

subsection \<open>navigateTo and observeCurrentState\<close>

definition navigateTo ::
  "('w, 'p, 'c) driver \<Rightarrow> 'p \<Rightarrow> jstring \<Rightarrow> 'w \<Rightarrow> ActionResult \<times> 'w" where
  "navigateTo drv page u w =
     (case goto drv page u 10000 w of
        (True, w1) \<Rightarrow>
          (case waitForTimeout drv page 1000 w1 of
             (True, w2) \<Rightarrow>
               (case quickObserve drv page w2 of
                  (obs, w3) \<Rightarrow>
                    (\<lparr>message = msg_opened @ u, observation = Some (Snapshot obs)\<rparr>, w3))
           | (False, w2) \<Rightarrow> (\<lparr>message = msg_open_failed, observation = None\<rparr>, w2))
      | (False, w1) \<Rightarrow> (\<lparr>message = msg_open_failed, observation = None\<rparr>, w1))"

definition observeCurrentState ::
  "('w, 'p, 'c) driver \<Rightarrow> 'p \<Rightarrow> 'w \<Rightarrow> ActionResult \<times> 'w" where
  "observeCurrentState drv page w =
     (case quickObserve drv page w of
        (obs, w1) \<Rightarrow>
          (\<lparr>message =
               msg_page @ o_title obs @ dq
               @ (if hasAvailability obs = Some True then msg_availability else [])
               @ (if o_prices obs \<noteq> [] then msg_dot_prices @ join (asc '', '') (take 3 (o_prices obs))
                  else []),
             observation = Some (Snapshot obs)\<rparr>, w1))"

subsection \<open>Which fields a run of fillForm filled\<close>

text \<open>
  For stating results about \<^verbatim>\<open>fillForm\<close>: a field is resolved when the data give it a
  value; \<open>filledFields\<close> follows the loop of \<open>fillFields\<close> and collects the fields whose
  fill or select call succeeded (the iterations that set \<^verbatim>\<open>filled = true\<close>);
  \<open>summaryEntry\<close> is the text pushed for such a field.
\<close>

definition resolved :: "(jstring \<Rightarrow> jstring) \<Rightarrow> RequestData \<Rightarrow> SiteMapField \<Rightarrow> bool" where
  "resolved lc d field = truthy_str (resolveValue lc field d)"

fun filledFields ::
  "(jstring \<Rightarrow> jstring) \<Rightarrow> ('w, 'p, 'c) driver \<Rightarrow> 'p \<Rightarrow> RequestData \<Rightarrow> SiteMapField list \<Rightarrow> 'w
   \<Rightarrow> SiteMapField list" where
  "filledFields lc drv page d [] w = []"
| "filledFields lc drv page d (field # rest) w =
     (if resolved lc d field then
        (case trySelectors drv page field (the (resolveValue lc field d)) (fieldSelectors field) w of
           (True, w1) \<Rightarrow> field # filledFields lc drv page d rest w1
         | (False, w1) \<Rightarrow> filledFields lc drv page d rest w1)
      else filledFields lc drv page d rest w)"

definition summaryEntry :: "(jstring \<Rightarrow> jstring) \<Rightarrow> RequestData \<Rightarrow> SiteMapField \<Rightarrow> jstring" where
  "summaryEntry lc d field = fieldEntry field (the (resolveValue lc field d))"

text \<open>
  \<open>submitClicked drv page form w\<close>: in the world \<open>w\<close> the form declares a submit control,
  the click on it succeeds and the settle wait after it passes. \<open>afterSubmit\<close> is the
  world that this click and this wait leave behind.
\<close>

definition submitClicked :: "('w, 'p, 'c) driver \<Rightarrow> 'p \<Rightarrow> SiteMapForm \<Rightarrow> 'w \<Rightarrow> bool" where
  "submitClicked drv page form w =
     (submit_button form \<noteq> []
      \<and> fst (click drv page (submit_button form) 3000 w)
      \<and> fst (waitForTimeout drv page 1500 (snd (click drv page (submit_button form) 3000 w))))"

definition afterSubmit :: "('w, 'p, 'c) driver \<Rightarrow> 'p \<Rightarrow> SiteMapForm \<Rightarrow> 'w \<Rightarrow> 'w" where
  "afterSubmit drv page form w =
     (if submit_button form = [] then w
      else if fst (click drv page (submit_button form) 3000 w)
        then snd (waitForTimeout drv page 1500 (snd (click drv page (submit_button form) 3000 w)))
      else snd (click drv page (submit_button form) 3000 w))"

subsection \<open>getContactInfo\<close>

text \<open>
  The three regular expressions of the in-page script use literals, alternatives and
  greedy repetitions of character classes. \<open>run r s\<close> lists, in the order a backtracking
  matcher tries them, the inputs that remain after each way \<open>r\<close> can match a prefix of
  \<open>s\<close>; the head of the list is the match the engine reports.
\<close>

datatype regex =
  Str jstring
| Seq regex regex
| Alt regex regex
| Many "nat \<Rightarrow> bool" nat "nat option"

text \<open>
  \<open>greedy p lo hi s\<close>: between \<open>lo\<close> and \<open>hi\<close> units of class \<open>p\<close> (no upper bound for
  \<open>None\<close>), the longest first.
\<close>

fun greedy :: "(nat \<Rightarrow> bool) \<Rightarrow> nat \<Rightarrow> nat option \<Rightarrow> jstring \<Rightarrow> jstring list" where
  "greedy p lo hi [] = (if lo = 0 then [[]] else [])"
| "greedy p lo hi (c # cs) =
     (if p c \<and> hi \<noteq> Some 0
      then greedy p (lo - 1) (map_option (\<lambda>h. h - 1) hi) cs @ (if lo = 0 then [c # cs] else [])
      else (if lo = 0 then [c # cs] else []))"

fun run :: "regex \<Rightarrow> jstring \<Rightarrow> jstring list" where
  "run (Str l) s = (if startsWith s l then [drop (length l) s] else [])"
| "run (Seq a b) s = concat (map (run b) (run a s))"
| "run (Alt a b) s = run a s @ run b s"
| "run (Many p lo hi) s = greedy p lo hi s"

definition match_at :: "regex \<Rightarrow> jstring \<Rightarrow> jstring option" where
  "match_at r s =
     (case run r s of [] \<Rightarrow> None | rest # _ \<Rightarrow> Some (take (length s - length rest) s))"

text \<open>The leftmost match: \<^verbatim>\<open>text.match(r)[0]\<close>, or \<open>None\<close> for \<^verbatim>\<open>null\<close>.\<close>

fun search :: "regex \<Rightarrow> jstring \<Rightarrow> jstring option" where
  "search r [] = match_at r []"
| "search r (c # cs) =
     (case match_at r (c # cs) of Some m \<Rightarrow> Some m | None \<Rightarrow> search r cs)"

text \<open>The classes \<^verbatim>\<open>\d\<close>, \<^verbatim>\<open>\w\<close>, \<^verbatim>\<open>\s\<close>, \<^verbatim>\<open>[\s-]\<close> and \<^verbatim>\<open>[\w.-]\<close>.\<close>

definition re_digit :: "nat \<Rightarrow> bool" where
  "re_digit c = (48 \<le> c \<and> c \<le> 57)"

definition re_word :: "nat \<Rightarrow> bool" where
  "re_word c = ((97 \<le> c \<and> c \<le> 122) \<or> (65 \<le> c \<and> c \<le> 90) \<or> re_digit c \<or> c = 95)"

definition re_space :: "nat \<Rightarrow> bool" where
  "re_space c =
     (c \<in> set [9, 10, 11, 12, 13, 32, 160, 5760, 8232, 8233, 8239, 8287, 12288, 65279]
      \<or> (8192 \<le> c \<and> c \<le> 8202))"

definition re_sep :: "nat \<Rightarrow> bool" where
  "re_sep c = (re_space c \<or> c = 45)"

definition re_mail :: "nat \<Rightarrow> bool" where
  "re_mail c = (re_word c \<or> c = 46 \<or> c = 45)"

text \<open>\<^verbatim>\<open>/(\+359|0)[\s-]?\d{2,3}[\s-]?\d{3}[\s-]?\d{3}/g\<close>\<close>

definition phone_permissive :: regex where
  "phone_permissive =
     Seq (Alt (Str (asc ''+359'')) (Str (asc ''0'')))
    (Seq (Many re_sep 0 (Some 1))
    (Seq (Many re_digit 2 (Some 3))
    (Seq (Many re_sep 0 (Some 1))
    (Seq (Many re_digit 3 (Some 3))
    (Seq (Many re_sep 0 (Some 1))
         (Many re_digit 3 (Some 3)))))))"

text \<open>\<^verbatim>\<open>/(\+359|0)\d{9}/g\<close>\<close>

definition phone_strict :: regex where
  "phone_strict = Seq (Alt (Str (asc ''+359'')) (Str (asc ''0''))) (Many re_digit 9 (Some 9))"

text \<open>\<^verbatim>\<open>/[\w.-]+@[\w.-]+\.\w+/\<close>\<close>

definition email_pattern :: regex where
  "email_pattern =
     Seq (Many re_mail 1 None)
    (Seq (Str (asc ''@''))
    (Seq (Many re_mail 1 None)
    (Seq (Str (asc ''.''))
         (Many re_word 1 None))))"

text \<open>The loop over \<^verbatim>\<open>phonePatterns\<close>: the first pattern with a match gives the phone.\<close>

fun firstMatch :: "regex list \<Rightarrow> jstring \<Rightarrow> jstring option" where
  "firstMatch [] text = None"
| "firstMatch (pattern # rest) text =
     (case search pattern text of Some m \<Rightarrow> Some m | None \<Rightarrow> firstMatch rest text)"

text \<open>The script evaluated in the page, on \<^verbatim>\<open>document.body.innerText\<close>.\<close>

definition contactScript :: "jstring \<Rightarrow> jstring option \<times> jstring option" where
  "contactScript text =
     (firstMatch [phone_permissive, phone_strict] text, search email_pattern text)"

definition contactMessage :: "jstring option \<times> jstring option \<Rightarrow> jstring" where
  "contactMessage contact =
     (let parts = (if truthy_str (fst contact) then [msg_phone @ the (fst contact)] else [])
                @ (if truthy_str (snd contact) then [asc ''Email: '' @ the (snd contact)] else [])
      in if parts \<noteq> [] then join (asc ''. '') parts else msg_no_contact)"

definition getContactInfo ::
  "('w, 'p, 'c) driver \<Rightarrow> 'p \<Rightarrow> 'w \<Rightarrow> ActionResult \<times> 'w" where
  "getContactInfo drv page w =
     (case innerText drv page w of
        (Some text, w1) \<Rightarrow>
          (\<lparr>message = contactMessage (contactScript text), observation = None\<rparr>, w1)
      | (None, w1) \<Rightarrow> (\<lparr>message = msg_contact_failed, observation = None\<rparr>, w1))"

text \<open>The least number of units a match consumes.\<close>

fun min_len :: "regex \<Rightarrow> nat" where
  "min_len (Str l) = length l"
| "min_len (Seq a b) = min_len a + min_len b"
| "min_len (Alt a b) = min (min_len a) (min_len b)"
| "min_len (Many p lo hi) = lo"

section \<open>The hot session manager\<close>

record ('p, 'c) HotSession =
  s_page :: 'p
  s_context :: 'c
  s_siteMap :: SiteMap
  lastActivity :: nat
  currentUrl :: jstring

text \<open>
  \<^verbatim>\<open>sessions: Map<string, HotSession>\<close>. A JavaScript \<^verbatim>\<open>Map\<close> iterates in insertion order,
  and the eviction scan depends on that order, so the store is the list of its entries
  in insertion order. \<open>Map_set\<close> keeps the position of a key that is present and appends a
  new one; \<open>Map_delete\<close> removes the key; \<open>map_of\<close> is \<^verbatim>\<open>get\<close> and \<open>length\<close> is \<^verbatim>\<open>size\<close>.
  \<open>isReady\<close> is set by \<^verbatim>\<open>start\<close> right after the browser is launched, so it also stands for
  \<^verbatim>\<open>this.browser\<close> being there.
\<close>

fun Map_set :: "'k \<Rightarrow> 'v \<Rightarrow> ('k \<times> 'v) list \<Rightarrow> ('k \<times> 'v) list" where
  "Map_set k v [] = [(k, v)]"
| "Map_set k v (e # es) = (if fst e = k then (k, v) # es else e # Map_set k v es)"

definition Map_delete :: "'k \<Rightarrow> ('k \<times> 'v) list \<Rightarrow> ('k \<times> 'v) list" where
  "Map_delete k es = filter (\<lambda>e. fst e \<noteq> k) es"

text \<open>
  A call of \<^verbatim>\<open>closeSession\<close> that is not awaited runs up to its first \<^verbatim>\<open>await\<close> (the entry
  is read and \<^verbatim>\<open>page.close()\<close> is issued) and then stays in flight: its remainder runs when
  the event loop resumes it. \<open>PageClosing siteId ok ctx\<close> is such a call waiting for
  \<^verbatim>\<open>page.close()\<close>, which resolved (\<open>ok\<close>) or threw, with the context it still has to
  close; \<open>ContextClosing siteId\<close> is one waiting for \<^verbatim>\<open>context.close()\<close>. The entry is deleted
  from the store only when the call reaches its last line. \<open>closing\<close> lists the calls in
  flight.
\<close>

datatype 'c pending_close =
  PageClosing jstring bool 'c
| ContextClosing jstring

record ('p, 'c) manager =
  isReady :: bool
  sessions :: "(jstring \<times> ('p, 'c) HotSession) list"
  closing :: "'c pending_close list"

definition MAX_SESSIONS :: nat where
  "MAX_SESSIONS = 50"

definition SESSION_TIMEOUT :: nat where
  "SESSION_TIMEOUT = 30 * 60 * 1000"

text \<open>
  \<^verbatim>\<open>closeSession\<close>, awaited by its caller: close the page, then the context, swallowing a
  failure (a failing \<^verbatim>\<open>page.close\<close> skips \<^verbatim>\<open>context.close\<close>), and delete the entry; nothing
  for an unknown id.
\<close>

definition closeSession ::
  "('w, 'p, 'c) driver \<Rightarrow> jstring \<Rightarrow> ('p, 'c) manager \<times> 'w \<Rightarrow> ('p, 'c) manager \<times> 'w" where
  "closeSession drv siteId st =
     (case st of (m, w) \<Rightarrow>
        (case map_of (sessions m) siteId of
           None \<Rightarrow> (m, w)
         | Some session \<Rightarrow>
             (m\<lparr>sessions := Map_delete siteId (sessions m)\<rparr>,
              (case close_page drv (s_page session) w of
                 (True, w1) \<Rightarrow> snd (close_context drv (s_context session) w1)
               | (False, w1) \<Rightarrow> w1))))"

text \<open>
  The scan of \<^verbatim>\<open>evictOldestSession\<close>: \<open>oldest\<close> is replaced only by a strictly smaller
  \<^verbatim>\<open>lastActivity\<close>, so among equals the entry inserted first stays.
\<close>

fun oldestOf ::
  "(jstring \<times> nat) option \<Rightarrow> (jstring \<times> ('p, 'c) HotSession) list \<Rightarrow> (jstring \<times> nat) option" where
  "oldestOf oldest [] = oldest"
| "oldestOf oldest (e # es) =
     oldestOf
       (case oldest of
          None \<Rightarrow> Some (fst e, lastActivity (snd e))
        | Some (oid, time) \<Rightarrow>
            if lastActivity (snd e) < time then Some (fst e, lastActivity (snd e)) else oldest)
       es"

text \<open>
  \<^verbatim>\<open>closeSession\<close>, not awaited: \<open>startClose\<close> is the part that runs at the call (nothing
  for an unknown id), \<open>resumeClose n\<close> is one resumption of the \<open>n\<close>-th call in flight: after
  a resolved \<^verbatim>\<open>page.close()\<close> it issues \<^verbatim>\<open>context.close()\<close> and waits again; after a thrown
  \<^verbatim>\<open>page.close()\<close>, or after \<^verbatim>\<open>context.close()\<close> has settled, it deletes the entry of the id
  (whatever session is stored under it by then) and the call is over.
\<close>

definition startClose ::
  "('w, 'p, 'c) driver \<Rightarrow> jstring \<Rightarrow> ('p, 'c) manager \<times> 'w \<Rightarrow> ('p, 'c) manager \<times> 'w" where
  "startClose drv siteId st =
     (case st of (m, w) \<Rightarrow>
        (case map_of (sessions m) siteId of
           None \<Rightarrow> (m, w)
         | Some session \<Rightarrow>
             (case close_page drv (s_page session) w of
                (ok, w1) \<Rightarrow>
                  (m\<lparr>closing := closing m @ [PageClosing siteId ok (s_context session)]\<rparr>, w1))))"

definition resumeClose ::
  "('w, 'p, 'c) driver \<Rightarrow> nat \<Rightarrow> ('p, 'c) manager \<times> 'w \<Rightarrow> ('p, 'c) manager \<times> 'w" where
  "resumeClose drv n st =
     (case st of (m, w) \<Rightarrow>
        if n < length (closing m) then
          (case closing m ! n of
             PageClosing siteId True ctx \<Rightarrow>
               (m\<lparr>closing := (closing m)[n := ContextClosing siteId]\<rparr>,
                snd (close_context drv ctx w))
           | PageClosing siteId False ctx \<Rightarrow>
               (m\<lparr>sessions := Map_delete siteId (sessions m),
                  closing := take n (closing m) @ drop (Suc n) (closing m)\<rparr>, w)
           | ContextClosing siteId \<Rightarrow>
               (m\<lparr>sessions := Map_delete siteId (sessions m),
                  closing := take n (closing m) @ drop (Suc n) (closing m)\<rparr>, w))
        else (m, w))"

text \<open>
  \<^verbatim>\<open>evictOldestSession\<close> and \<^verbatim>\<open>cleanupSessions\<close> are synchronous and call \<^verbatim>\<open>closeSession\<close>
  without awaiting it: when they return, the closes are in flight and the store still
  holds the entries.
\<close>

definition evictOldestSession ::
  "('w, 'p, 'c) driver \<Rightarrow> ('p, 'c) manager \<times> 'w \<Rightarrow> ('p, 'c) manager \<times> 'w" where
  "evictOldestSession drv st =
     (case oldestOf None (sessions (fst st)) of
        None \<Rightarrow> st
      | Some (oid, time) \<Rightarrow> startClose drv oid st)"

definition cleanupSessions ::
  "('w, 'p, 'c) driver \<Rightarrow> ('p, 'c) manager \<times> 'w \<Rightarrow> ('p, 'c) manager \<times> 'w" where
  "cleanupSessions drv st =
     foldl (\<lambda>s siteId. startClose drv siteId s) st
       (map fst
          (filter (\<lambda>e. int SESSION_TIMEOUT < int (now drv (snd st)) - int (lastActivity (snd e)))
             (sessions (fst st))))"

text \<open>
  \<^verbatim>\<open>prepareSession\<close>. Every call after the readiness check is inside the \<^verbatim>\<open>try\<close>; a throwing
  \<^verbatim>\<open>newContext\<close>, \<^verbatim>\<open>newPage\<close>, \<^verbatim>\<open>goto\<close> or \<^verbatim>\<open>waitForTimeout\<close> makes the function return
  \<^verbatim>\<open>false\<close> with the store as the close of the old session left it. The resumptions of
  the closes in flight are steps of their own (\<open>resumeClose\<close>), taken between the calls of
  the manager and not inside the awaits of one call; so the close that the capacity check
  starts is in \<open>closing\<close> when the function returns, and its entry is in the store that
  \<^verbatim>\<open>sessions.set\<close> extends.
\<close>

definition normalizeUrl :: "jstring \<Rightarrow> jstring" where
  "normalizeUrl u = (if startsWith u (asc ''http'') then u else asc ''https://'' @ u)"

definition prepareSession ::
  "('w, 'p, 'c) driver \<Rightarrow> jstring \<Rightarrow> SiteMap \<Rightarrow> ('p, 'c) manager \<times> 'w
   \<Rightarrow> bool \<times> ('p, 'c) manager \<times> 'w" where
  "prepareSession drv siteId siteMap st =
     (if \<not> isReady (fst st) then (False, st)
      else
        (case closeSession drv siteId st of st1 \<Rightarrow>
        (case (if MAX_SESSIONS \<le> length (sessions (fst st1)) then evictOldestSession drv st1
               else st1) of (m2, w2) \<Rightarrow>
        (case newContext drv w2 of
           (None, w3) \<Rightarrow> (False, m2, w3)
         | (Some ctx, w3) \<Rightarrow>
        (case newPage drv ctx w3 of
           (None, w4) \<Rightarrow> (False, m2, w4)
         | (Some page, w4) \<Rightarrow>
        (case goto drv page (normalizeUrl (url siteMap)) 20000 w4 of
           (False, w5) \<Rightarrow> (False, m2, w5)
         | (True, w5) \<Rightarrow>
        (case waitForTimeout drv page 1500 w5 of
           (False, w6) \<Rightarrow> (False, m2, w6)
         | (True, w6) \<Rightarrow>
             (True,
              m2\<lparr>sessions :=
                   Map_set siteId
                     \<lparr>s_page = page, s_context = ctx, s_siteMap = siteMap,
                      lastActivity = now drv w6, currentUrl = page_url drv page w6\<rparr>
                     (sessions m2)\<rparr>,
              w6))))))))"

subsection \<open>execute\<close>

record ExecuteResult =
  success :: bool
  r_message :: jstring
  r_observation :: "Observation option"

definition succeeded :: "ActionResult \<Rightarrow> ExecuteResult" where
  "succeeded res =
     \<lparr>success = True, r_message = message res, r_observation = observation res\<rparr>"

definition failed :: "jstring \<Rightarrow> ExecuteResult" where
  "failed msg = \<lparr>success = False, r_message = msg, r_observation = None\<rparr>"

text \<open>
  The second half of \<^verbatim>\<open>execute\<close>: match the action on \<^verbatim>\<open>session.siteMap\<close> and run it on
  \<^verbatim>\<open>session.page\<close>. Of the executors only \<^verbatim>\<open>fillForm\<close> can throw; the outer \<^verbatim>\<open>catch\<close> turns
  that into the failure result.
\<close>

definition runAction ::
  "(jstring \<Rightarrow> jstring) \<Rightarrow> ('w, 'p, 'c) driver \<Rightarrow> ExecuteRequest \<Rightarrow> ('p, 'c) HotSession
   \<Rightarrow> 'w \<Rightarrow> ExecuteResult \<times> 'w" where
  "runAction lc drv request session w =
     (case matchAction lc (req_keywords request) (s_siteMap session) (req_data request) of
        Fill_form form data \<Rightarrow>
          (case fillForm lc drv (s_page session) form data w of
             Inl (e, w1) \<Rightarrow> (failed msg_execute_error, w1)
           | Inr (res, w1) \<Rightarrow> (succeeded res, w1))
      | Click selector buttonText \<Rightarrow>
          (case clickButton drv (s_page session) selector (Some buttonText) w of
             (res, w1) \<Rightarrow> (succeeded res, w1))
      | Return_prices \<Rightarrow>
          (succeeded
             \<lparr>message = formatPrices (prices (s_siteMap session)),
              observation = Some (PriceList (prices (s_siteMap session)))\<rparr>, w)
      | Return_contact \<Rightarrow>
          (case getContactInfo drv (s_page session) w of (res, w1) \<Rightarrow> (succeeded res, w1))
      | Navigate u \<Rightarrow>
          (case navigateTo drv (s_page session) u w of (res, w1) \<Rightarrow> (succeeded res, w1))
      | Observe \<Rightarrow>
          (case observeCurrentState drv (s_page session) w of (res, w1) \<Rightarrow> (succeeded res, w1)))"

text \<open>
  \<^verbatim>\<open>execute\<close>. \<open>session\<close> is the object read from the store at the start; the write to
  \<^verbatim>\<open>session.lastActivity\<close> goes to the stored object. After a failed probe the session is
  prepared again and the store is read once more, only to see whether an entry exists:
  the action still runs on \<open>session\<close>, the object read at the start.
\<close>

definition execute ::
  "(jstring \<Rightarrow> jstring) \<Rightarrow> ('w, 'p, 'c) driver \<Rightarrow> ExecuteRequest \<Rightarrow> ('p, 'c) manager \<times> 'w
   \<Rightarrow> ExecuteResult \<times> ('p, 'c) manager \<times> 'w" where
  "execute lc drv request st =
     (case st of (m, w) \<Rightarrow>
        (case map_of (sessions m) (req_site_id request) of
           None \<Rightarrow> (failed msg_no_session, m, w)
         | Some stored \<Rightarrow>
             (let session = stored\<lparr>lastActivity := now drv w\<rparr>;
                  m1 = m\<lparr>sessions := Map_set (req_site_id request) session (sessions m)\<rparr>
              in case evaluate_true drv (s_page session) w of
                   (True, w1) \<Rightarrow>
                     (case runAction lc drv request session w1 of (r, w2) \<Rightarrow> (r, m1, w2))
                 | (False, w1) \<Rightarrow>
                     (case prepareSession drv (req_site_id request) (s_siteMap session) (m1, w1) of
                        (ok, m2, w2) \<Rightarrow>
                          (case map_of (sessions m2) (req_site_id request) of
                             None \<Rightarrow> (failed msg_recovery_failed, m2, w2)
                           | Some newSession \<Rightarrow>
                               (case runAction lc drv request session w2 of
                                  (r, w3) \<Rightarrow> (r, m2, w3)))))))"

subsection \<open>Sequences of operations\<close>

text \<open>
  The four operations of the manager, and \<open>Resume n\<close>: the event loop resumes the \<open>n\<close>-th
  close in flight.
\<close>

datatype operation =
  Prepare jstring SiteMap
| Execute ExecuteRequest
| Close jstring
| Cleanup
| Resume nat

definition step ::
  "(jstring \<Rightarrow> jstring) \<Rightarrow> ('w, 'p, 'c) driver \<Rightarrow> ('p, 'c) manager \<times> 'w \<Rightarrow> operation
   \<Rightarrow> ('p, 'c) manager \<times> 'w" where
  "step lc drv st opn =
     (case opn of
        Prepare siteId siteMap \<Rightarrow> snd (prepareSession drv siteId siteMap st)
      | Execute request \<Rightarrow> snd (execute lc drv request st)
      | Close siteId \<Rightarrow> closeSession drv siteId st
      | Cleanup \<Rightarrow> cleanupSessions drv st
      | Resume n \<Rightarrow> resumeClose drv n st)"

definition run_operations ::
  "(jstring \<Rightarrow> jstring) \<Rightarrow> ('w, 'p, 'c) driver \<Rightarrow> ('p, 'c) manager \<times> 'w \<Rightarrow> operation list
   \<Rightarrow> ('p, 'c) manager \<times> 'w" where
  "run_operations lc drv st ops = foldl (step lc drv) st ops"

subsection \<open>A well-formed store\<close>

text \<open>
  For stating results about the store: \<open>store_ok\<close> says that the keys are distinct (as in
  any \<^verbatim>\<open>Map\<close>) and that the size is within \<^verbatim>\<open>MAX_SESSIONS\<close>.
\<close>

definition store_ok :: "('p, 'c) manager \<Rightarrow> bool" where
  "store_ok m = (distinct (map fst (sessions m)) \<and> length (sessions m) \<le> MAX_SESSIONS)"

section \<open>Concrete inputs\<close>

text \<open>The keywords rezervatsiya and staya of the README's example request.\<close>

definition kw_rezervatsiya :: jstring where
  "kw_rezervatsiya = [1088, 1077, 1079, 1077, 1088, 1074, 1072, 1094, 1080, 1103]"

definition kw_staya :: jstring where
  "kw_staya = [1089, 1090, 1072, 1103]"

text \<open>A form whose only field is a text field declared with the check-in word ot.\<close>

definition ex_form_text :: SiteMapForm where
  "ex_form_text =
     \<lparr>form_selector = asc ''#search'',
      form_fields = [\<lparr>f_name = asc ''from'', f_selector = asc ''#from'', f_type = Text,
                 f_keywords = [[1086, 1090]]\<rparr>],
      submit_button = []\<rparr>"

text \<open>A form with one date-typed field that declares no keyword.\<close>

definition ex_form_date :: SiteMapForm where
  "ex_form_date =
     \<lparr>form_selector = asc ''#booking'',
      form_fields = [\<lparr>f_name = asc ''arrive'', f_selector = asc ''#arrive'', f_type = Date,
                 f_keywords = []\<rparr>],
      submit_button = asc ''#go''\<rparr>"

definition ex_button_book :: SiteMapButton where
  "ex_button_book =
     \<lparr>b_text = asc ''Book now'', b_selector = asc ''#book'', b_keywords = [asc ''book''],
      b_action_type = Booking\<rparr>"

definition ex_siteMap :: SiteMap where
  "ex_siteMap =
     \<lparr>site_id = asc ''hotel'', url = asc ''hotel.example'',
      buttons = [ex_button_book], forms = [ex_form_text, ex_form_date], prices = []\<rparr>"

text \<open>The price entry "120 lv" with the context "Standartna staya".\<close>

definition ex_price :: PriceEntry where
  "ex_price =
     \<lparr>p_text = [49, 50, 48, 32, 1083, 1074],
      p_context = [1057, 1090, 1072, 1085, 1076, 1072, 1088, 1090, 1085, 1072, 32, 1089, 1090, 1072, 1103]\<rparr>"

definition ex_price_bare :: "nat \<Rightarrow> PriceEntry" where
  "ex_price_bare n = \<lparr>p_text = [48 + n], p_context = []\<rparr>"

subsection \<open>A simulated browser\<close>

text \<open>
  A small deterministic world to run the worker on: handles are numbers, a closed page
  rejects every call, a selector resolves exactly when it is listed in \<open>present\<close>,
  navigation succeeds exactly when \<open>online\<close>, and every click, fill and select attempt is
  logged with the page it went to and its outcome.
\<close>

datatype event =
  ClickOn nat jstring bool
| FillIn nat jstring jstring bool
| SelectIn nat jstring jstring bool
| GoTo nat jstring bool
| ClosePage nat

record sim =
  clock :: nat
  fresh :: nat
  closed :: "nat list"
  present :: "jstring list"
  online :: bool
  bodyText :: jstring
  events :: "event list"

definition sim_snapshot :: snapshot where
  "sim_snapshot =
     \<lparr>o_url = asc ''https://hotel.example/'', o_title = asc ''Hotel'', o_prices = [],
      hasAvailability = Some False, noAvailability = Some False, textSnippet = Some []\<rparr>"

definition sim_alive :: "nat \<Rightarrow> sim \<Rightarrow> bool" where
  "sim_alive p w = (p \<notin> set (closed w))"

definition sim_hit :: "nat \<Rightarrow> jstring \<Rightarrow> sim \<Rightarrow> bool" where
  "sim_hit p sel w = (sim_alive p w \<and> sel \<in> set (present w))"

definition simDriver :: "(sim, nat, nat) driver" where
  "simDriver =
     \<lparr>newContext = (\<lambda>w. (Some (fresh w), w\<lparr>fresh := fresh w + 1\<rparr>)),
      newPage = (\<lambda>c w. (Some (fresh w), w\<lparr>fresh := fresh w + 1\<rparr>)),
      goto = (\<lambda>p u t w.
        (sim_alive p w \<and> online w,
         w\<lparr>clock := clock w + 1, events := events w @ [GoTo p u (sim_alive p w \<and> online w)]\<rparr>)),
      waitForTimeout = (\<lambda>p ms w. (sim_alive p w, w\<lparr>clock := clock w + ms\<rparr>)),
      page_url = (\<lambda>p w. asc ''https://hotel.example/''),
      evaluate_true = (\<lambda>p w. (sim_alive p w, w)),
      query = (\<lambda>p sel w. (if sim_alive p w then Some (sel \<in> set (present w)) else None, w)),
      fill = (\<lambda>p sel v t w. (sim_hit p sel w, w\<lparr>events := events w @ [FillIn p sel v (sim_hit p sel w)]\<rparr>)),
      selectOption = (\<lambda>p sel v t w.
        (sim_hit p sel w, w\<lparr>events := events w @ [SelectIn p sel v (sim_hit p sel w)]\<rparr>)),
      click = (\<lambda>p sel t w. (sim_hit p sel w, w\<lparr>events := events w @ [ClickOn p sel (sim_hit p sel w)]\<rparr>)),
      innerText = (\<lambda>p w. (if sim_alive p w then Some (bodyText w) else None, w)),
      page_snapshot = (\<lambda>p w. (if sim_alive p w then Some sim_snapshot else None, w)),
      close_page = (\<lambda>p w. (True, w\<lparr>closed := p # closed w, events := events w @ [ClosePage p]\<rparr>)),
      close_context = (\<lambda>c w. (True, w)),
      now = clock\<rparr>"

text \<open>A world with page 0 open, showing a page on which only the listed selectors resolve.\<close>

definition sim_world :: "jstring list \<Rightarrow> sim" where
  "sim_world sels =
     \<lparr>clock = 1000, fresh = 2, closed = [], present = sels, online = True, bodyText = [],
      events = []\<rparr>"

text \<open>
  A search form: a date field for the check-in (its keyword is capitalised), a date field
  for the check-out, a select for the guests, and a promo-code field outside every
  vocabulary.
\<close>

definition ex_field_in :: SiteMapField where
  "ex_field_in =
     \<lparr>f_name = asc ''check_in'', f_selector = asc ''#in'', f_type = Date,
      f_keywords = [asc ''Arrival'']\<rparr>"

definition ex_field_out :: SiteMapField where
  "ex_field_out =
     \<lparr>f_name = asc ''check-out'', f_selector = asc ''#out'', f_type = Date,
      f_keywords = [asc ''departure'']\<rparr>"

definition ex_field_guests :: SiteMapField where
  "ex_field_guests =
     \<lparr>f_name = asc ''guests'', f_selector = asc ''#guests'', f_type = Select,
      f_keywords = [asc ''guests'']\<rparr>"

definition ex_field_promo :: SiteMapField where
  "ex_field_promo =
     \<lparr>f_name = asc ''promo'', f_selector = asc ''#promo'', f_type = Text,
      f_keywords = [asc ''promo'']\<rparr>"

definition ex_form_search :: SiteMapForm where
  "ex_form_search =
     \<lparr>form_selector = asc ''#search'',
      form_fields = [ex_field_in, ex_field_promo, ex_field_out, ex_field_guests],
      submit_button = asc ''#go''\<rparr>"

definition ex_data :: RequestData where
  "ex_data =
     \<lparr>check_in = Some (asc ''2025-02-15''), check_out = Some (asc ''2025-02-17''),
      guests = Some (safeInteger 2)\<rparr>"

text \<open>A page whose visible text shows a phone number and an address.\<close>

definition sim_contact_world :: sim where
  "sim_contact_world = (sim_world [])\<lparr>bodyText := asc ''Call +359 88 123 4567 or write to a@b.com.''\<rparr>"

subsection \<open>A store at its limit\<close>

text \<open>
  Fifty sessions with the one-unit ids 100 to 149, inserted in this order; session \<open>k\<close>
  owns page \<open>k\<close> and was last active at time \<open>k\<close>, so the oldest is the one with id 100.
\<close>

definition ex_session :: "nat \<Rightarrow> nat \<Rightarrow> (nat, nat) HotSession" where
  "ex_session h t =
     \<lparr>s_page = h, s_context = 1000 + h, s_siteMap = ex_siteMap, lastActivity = t,
      currentUrl = asc ''https://hotel.example/''\<rparr>"

definition full_store :: "(nat, nat) manager" where
  "full_store =
     \<lparr>isReady = True, sessions = map (\<lambda>k. ([k], ex_session k k)) [100..<150], closing = []\<rparr>"

definition busy_world :: sim where
  "busy_world = (sim_world [])\<lparr>fresh := 5000\<rparr>"

subsection \<open>A session whose page has died\<close>

text \<open>
  One session for the site "hotel", on page 0 and context 1, with a SiteDescription that
  has the booking button and no form. In \<open>stale_world\<close> page 0 is closed (the tab
  crashed); in \<open>offline_world\<close> navigation fails.
\<close>

definition ex_siteMap_buttons :: SiteMap where
  "ex_siteMap_buttons = ex_siteMap\<lparr>forms := []\<rparr>"

definition stale_manager :: "(nat, nat) manager" where
  "stale_manager =
     \<lparr>isReady = True,
      sessions = [(asc ''hotel'',
                   \<lparr>s_page = 0, s_context = 1, s_siteMap = ex_siteMap_buttons, lastActivity = 500,
                    currentUrl = asc ''https://hotel.example/''\<rparr>)],
      closing = []\<rparr>"

definition stale_world :: sim where
  "stale_world = (sim_world [asc ''#book''])\<lparr>closed := [0]\<rparr>"

definition ex_request :: ExecuteRequest where
  "ex_request = \<lparr>req_site_id = asc ''hotel'', req_keywords = [asc ''book''], req_data = None\<rparr>"

definition offline_world :: sim where
  "offline_world = (sim_world [])\<lparr>online := False\<rparr>"

subsection \<open>A button without a label\<close>

text \<open>The same site, live on page 0, described with one booking button whose text is empty.\<close>

definition ex_button_icon :: SiteMapButton where
  "ex_button_icon =
     \<lparr>b_text = [], b_selector = asc ''#book'', b_keywords = [], b_action_type = Booking\<rparr>"

definition icon_manager :: "(nat, nat) manager" where
  "icon_manager =
     \<lparr>isReady = True,
      sessions = [(asc ''hotel'',
                   \<lparr>s_page = 0, s_context = 1,
                    s_siteMap = ex_siteMap\<lparr>buttons := [ex_button_icon], forms := []\<rparr>,
                    lastActivity = 500, currentUrl = asc ''https://hotel.example/''\<rparr>)],
      closing = []\<rparr>"

section \<open>Results: the price report\<close>

lemma formatPrices_take: "formatPrices (take 5 ps) = formatPrices ps"
  by (cases ps) (simp_all add: formatPrices_def)

text \<open>
  C4 (as stated). For every price list, the empty one included, the report is the prefix
  "Tseni: " followed by the rendered entries. The empty list refutes it: the function
  answers with the fixed sentence "Ne namerih tseni na sayta".
\<close>

theorem formatPrices_empty_counterexample:
  "formatPrices [] \<noteq> msg_prices @ join (asc ''; '') (map formatPrice (take 5 []))"
  by (simp add: formatPrices_def msg_prices_def msg_no_prices_def)

text \<open>
  C4 (amended). For every non-empty price list the report is the prefix "Tseni: "
  followed by the first five entries at most, in order, each rendered as
  "context: text" when its context is non-empty and as "text" otherwise, joined by
  "; "; entries after the fifth do not matter; the empty list gives the fixed
  not-found sentence; and the single entry "120 lv" with context "Standartna staya"
  gives exactly "Tseni: Standartna staya: 120 lv". The function reads its argument only.
\<close>

theorem formatPrices_report:
  "(ps \<noteq> [] \<longrightarrow>
      formatPrices ps = msg_prices @ join (asc ''; '') (map formatPrice (take 5 ps)))
   \<and> formatPrices (take 5 ps) = formatPrices ps
   \<and> formatPrice \<lparr>p_text = t, p_context = c\<rparr> = (if c = [] then t else c @ asc '': '' @ t)
   \<and> formatPrices [] = msg_no_prices
   \<and> formatPrices [ex_price]
       = [1062, 1077, 1085, 1080, 58, 32,
          1057, 1090, 1072, 1085, 1076, 1072, 1088, 1090, 1085, 1072, 32, 1089, 1090, 1072, 1103,
          58, 32, 49, 50, 48, 32, 1083, 1074]"
  by (simp add: formatPrices_take)
     (simp add: formatPrices_def formatPrice_def msg_prices_def ex_price_def asc_def)

theorem formatPrices_report_witness:
  "[ex_price, ex_price_bare 1, ex_price_bare 2, ex_price_bare 3, ex_price_bare 4, ex_price_bare 5] \<noteq> []
   \<and> formatPrices [ex_price, ex_price_bare 1, ex_price_bare 2, ex_price_bare 3, ex_price_bare 4, ex_price_bare 5]
       = [1062, 1077, 1085, 1080, 58, 32,
          1057, 1090, 1072, 1085, 1076, 1072, 1088, 1090, 1085, 1072, 32, 1089, 1090, 1072, 1103,
          58, 32, 49, 50, 48, 32, 1083, 1074,
          59, 32, 49, 59, 32, 50, 59, 32, 51, 59, 32, 52]"
  using formatPrices_report
    [of "[ex_price, ex_price_bare 1, ex_price_bare 2, ex_price_bare 3, ex_price_bare 4, ex_price_bare 5]"]
  by (simp add: formatPrice_def msg_prices_def ex_price_def ex_price_bare_def asc_def)

section \<open>Results: the matcher's booking rule\<close>

lemma find_bookingForm_Some:
  assumes "\<exists>f\<in>set fs. \<exists>field\<in>set (form_fields f). f_type field = Date"
  shows "\<exists>form. find bookingForm fs = Some form \<and> form \<in> set fs \<and> bookingForm form"
proof -
  from assms obtain f where f: "f \<in> set fs" "bookingForm f"
    by (auto simp: bookingForm_def dateField_def)
  then have "find bookingForm fs \<noteq> None"
    by (auto simp: find_None_iff)
  then obtain form where "find bookingForm fs = Some form" by auto
  then show ?thesis
    by (auto simp: find_Some_iff)
qed

lemma matchAction_booking:
  assumes "(\<exists>p\<in>set PATTERNS_booking. str_includes (lc (join (asc '' '') keywords)) p) \<or> hasDates data"
      and "find bookingForm (forms siteMap) = Some form"
  shows "matchAction lc keywords siteMap data = Fill_form form data"
  using assms by (simp add: matchAction_def rule_booking_def)

lemma find_first:
  assumes "\<forall>g\<in>set pre. \<not> P g" and "P f"
  shows "find P (pre @ f # post) = Some f"
  using assms by (induction pre) auto

lemma rezervatsiya_is_booking:
  "\<exists>p\<in>set PATTERNS_booking.
     str_includes (toLowerCase (join (asc '' '') [kw_rezervatsiya, kw_staya])) p"
  by (simp add: PATTERNS_booking_def kw_rezervatsiya_def kw_staya_def toLowerCase_def
      lower_unit_def asc_def)

text \<open>
  C3 (as stated). With a booking keyword, a form with a date-typed field and a
  booking-tagged button, the matcher returns \<open>fill_form\<close> for the form with the
  date-typed field. It does not when an earlier form qualifies through a keyword: on
  \<open>ex_siteMap\<close> the first form has a single text field declared with the check-in word
  ot, the second form has the date-typed field, and the matcher fills the first.
\<close>

theorem matchAction_form_counterexample:
  "matchAction toLowerCase [kw_rezervatsiya, kw_staya] ex_siteMap None = Fill_form ex_form_text None
   \<and> forms ex_siteMap = [ex_form_text, ex_form_date]
   \<and> map f_type (form_fields ex_form_text) = [Text]
   \<and> map f_type (form_fields ex_form_date) = [Date]
   \<and> map b_action_type (buttons ex_siteMap) = [Booking]
   \<and> Fill_form ex_form_text None \<noteq> Fill_form ex_form_date None"
  by (simp add: matchAction_def rule_booking_def bookingForm_def dateField_def ex_siteMap_def
      ex_form_text_def ex_form_date_def ex_button_book_def PATTERNS_booking_def
      PATTERNS_check_in_def kw_rezervatsiya_def kw_staya_def toLowerCase_def lower_unit_def
      asc_def)

text \<open>
  C3 (amended). When the joined lower-cased keywords contain a booking word, or a
  non-empty check-in or check-out date is given, and some form of the SiteDescription has
  a date-typed field, the matcher returns \<open>fill_form\<close>, never \<open>click\<close>, and the form it
  carries is the first form in declaration order that has a date-typed field or a field
  declaring a check-in or check-out word; that is the form with the date-typed field
  whenever no earlier form qualifies. The keywords rezervatsiya, staya trigger the rule.
  A booking-tagged button changes nothing: the hypothesis is not needed.
\<close>

theorem matchAction_booking_prefers_form:
  assumes trigger:
      "(\<exists>p\<in>set PATTERNS_booking. str_includes (lc (join (asc '' '') keywords)) p) \<or> hasDates data"
    and dated: "\<exists>f\<in>set (forms siteMap). \<exists>field\<in>set (form_fields f). f_type field = Date"
  shows "(\<exists>form. find bookingForm (forms siteMap) = Some form
            \<and> form \<in> set (forms siteMap) \<and> bookingForm form
            \<and> matchAction lc keywords siteMap data = Fill_form form data
            \<and> matchAction toLowerCase [kw_rezervatsiya, kw_staya] siteMap data = Fill_form form data)
       \<and> (\<forall>selector buttonText. matchAction lc keywords siteMap data \<noteq> Click selector buttonText)
       \<and> (\<forall>pre f post. forms siteMap = pre @ f # post \<and> (\<forall>g\<in>set pre. \<not> bookingForm g)
              \<and> (\<exists>field\<in>set (form_fields f). f_type field = Date)
            \<longrightarrow> matchAction lc keywords siteMap data = Fill_form f data)"
proof -
  from find_bookingForm_Some [OF dated] obtain form where
    form: "find bookingForm (forms siteMap) = Some form" "form \<in> set (forms siteMap)"
      "bookingForm form"
    by blast
  have m: "matchAction lc keywords siteMap data = Fill_form form data"
    using trigger form(1) by (rule matchAction_booking)
  have r: "matchAction toLowerCase [kw_rezervatsiya, kw_staya] siteMap data = Fill_form form data"
    using disjI1 [OF rezervatsiya_is_booking] form(1) by (rule matchAction_booking)
  have first: "\<exists>form. find bookingForm (forms siteMap) = Some form
           \<and> form \<in> set (forms siteMap) \<and> bookingForm form
           \<and> matchAction lc keywords siteMap data = Fill_form form data
           \<and> matchAction toLowerCase [kw_rezervatsiya, kw_staya] siteMap data = Fill_form form data"
    using form m r by blast
  have never: "\<forall>selector buttonText. matchAction lc keywords siteMap data \<noteq> Click selector buttonText"
    using m by simp
  have that: "\<forall>pre f post. forms siteMap = pre @ f # post \<and> (\<forall>g\<in>set pre. \<not> bookingForm g)
            \<and> (\<exists>field\<in>set (form_fields f). f_type field = Date)
          \<longrightarrow> matchAction lc keywords siteMap data = Fill_form f data"
  proof (intro allI impI, elim conjE)
    fix pre f post
    assume fs: "forms siteMap = pre @ f # post" and pre: "\<forall>g\<in>set pre. \<not> bookingForm g"
      and d: "\<exists>field\<in>set (form_fields f). f_type field = Date"
    from d have "bookingForm f" by (auto simp: bookingForm_def dateField_def)
    with pre have "find bookingForm (pre @ f # post) = Some f" by (rule find_first)
    with fs have "find bookingForm (forms siteMap) = Some f" by simp
    with trigger show "matchAction lc keywords siteMap data = Fill_form f data"
      by (rule matchAction_booking)
  qed
  from first never that show ?thesis by blast
qed

theorem matchAction_booking_prefers_form_witness:
  "(\<exists>p\<in>set PATTERNS_booking.
      str_includes (toLowerCase (join (asc '' '') [kw_rezervatsiya, kw_staya])) p)
   \<and> (\<exists>f\<in>set (forms (ex_siteMap\<lparr>forms := [ex_form_date]\<rparr>)).
        \<exists>field\<in>set (form_fields f). f_type field = Date)
   \<and> matchAction toLowerCase [kw_rezervatsiya, kw_staya] (ex_siteMap\<lparr>forms := [ex_form_date]\<rparr>) None
       = Fill_form ex_form_date None"
proof -
  have d: "\<exists>f\<in>set (forms (ex_siteMap\<lparr>forms := [ex_form_date]\<rparr>)).
        \<exists>field\<in>set (form_fields f). f_type field = Date"
    by (simp add: ex_form_date_def)
  from matchAction_booking_prefers_form
    [of toLowerCase "[kw_rezervatsiya, kw_staya]" None "ex_siteMap\<lparr>forms := [ex_form_date]\<rparr>"]
    rezervatsiya_is_booking d
  have "matchAction toLowerCase [kw_rezervatsiya, kw_staya] (ex_siteMap\<lparr>forms := [ex_form_date]\<rparr>) None
       = Fill_form ex_form_date None"
    by (simp add: bookingForm_def dateField_def ex_form_date_def)
  with rezervatsiya_is_booking d show ?thesis by blast
qed

section \<open>Results: clickButton\<close>

lemmas sim_defs = simDriver_def sim_world_def sim_hit_def sim_alive_def

text \<open>
  With no usable label, a failed click on the declared selector is followed by a text
  strategy that resolves without clicking, so the loop reports success.
\<close>

lemma clickButton_unlabelled:
  assumes "\<not> truthy_str buttonText"
      and "click drv page selector 2000 w = (False, w1)"
      and "waitForTimeout drv page 1000 w1 = (True, w2)"
  shows "message (fst (clickButton drv page selector buttonText w)) = msg_clicked"
  using assms
  by (simp add: clickButton_def strategies_def textStrategy_def clickedMessage_def
      split: prod.splits)

text \<open>
  C5 (the code at the failing input). On a page where the selector \<open>#book\<close> does not
  resolve, \<^verbatim>\<open>clickButton\<close> with no \<^verbatim>\<open>buttonText\<close>, or with the empty label that the matcher
  passes for a button without text, makes one click attempt, which fails, and returns
  the success message "Kliknah" with a snapshot instead of "Ne uspyah da klikna"; so does
  \<^verbatim>\<open>execute\<close> with the keyword "book" on a session whose SiteDescription has a booking
  button with an empty text.
\<close>

theorem clickButton_unlabelled_reports_success:
  "clickButton simDriver 0 (asc ''#book'') None (sim_world [])
     = (\<lparr>message = msg_clicked, observation = Some (Snapshot sim_snapshot)\<rparr>,
        (sim_world [])\<lparr>clock := 2000, events := [ClickOn 0 (asc ''#book'') False]\<rparr>)
   \<and> clickButton simDriver 0 (asc ''#book'') (Some []) (sim_world [])
     = (\<lparr>message = msg_clicked, observation = Some (Snapshot sim_snapshot)\<rparr>,
        (sim_world [])\<lparr>clock := 2000, events := [ClickOn 0 (asc ''#book'') False]\<rparr>)
   \<and> msg_clicked \<noteq> msg_click_failed
   \<and> fst (execute toLowerCase simDriver ex_request (icon_manager, sim_world []))
       = \<lparr>success = True, r_message = msg_clicked,
          r_observation = Some (Snapshot sim_snapshot)\<rparr>
   \<and> events (snd (snd (execute toLowerCase simDriver ex_request (icon_manager, sim_world []))))
       = [ClickOn 0 (asc ''#book'') False]"
proof -
  have direct:
    "clickButton simDriver 0 (asc ''#book'') None (sim_world [])
       = (\<lparr>message = msg_clicked, observation = Some (Snapshot sim_snapshot)\<rparr>,
          (sim_world [])\<lparr>clock := 2000, events := [ClickOn 0 (asc ''#book'') False]\<rparr>)
     \<and> clickButton simDriver 0 (asc ''#book'') (Some []) (sim_world [])
       = (\<lparr>message = msg_clicked, observation = Some (Snapshot sim_snapshot)\<rparr>,
          (sim_world [])\<lparr>clock := 2000, events := [ClickOn 0 (asc ''#book'') False]\<rparr>)
     \<and> msg_clicked \<noteq> msg_click_failed"
    by (simp add: clickButton_def strategies_def textStrategy_def clickedMessage_def
        truthy_str_def quickObserve_def sim_defs msg_clicked_def msg_click_failed_def)
  have through:
    "execute toLowerCase simDriver ex_request (icon_manager, sim_world [])
       = (\<lparr>success = True, r_message = msg_clicked,
            r_observation = Some (Snapshot sim_snapshot)\<rparr>,
          icon_manager\<lparr>sessions :=
            [(asc ''hotel'',
              \<lparr>s_page = 0, s_context = 1,
               s_siteMap = ex_siteMap\<lparr>buttons := [ex_button_icon], forms := []\<rparr>,
               lastActivity = 1000, currentUrl = asc ''https://hotel.example/''\<rparr>)]\<rparr>,
          (sim_world [])\<lparr>clock := 2000, events := [ClickOn 0 (asc ''#book'') False]\<rparr>)"
    by (simp add: execute_def runAction_def matchAction_def rule_booking_def bookingForm_def
        clickOn_def clickButton_def strategies_def textStrategy_def clickedMessage_def
        truthy_str_def quickObserve_def succeeded_def PATTERNS_booking_def toLowerCase_def
        lower_unit_def icon_manager_def ex_button_icon_def ex_request_def ex_siteMap_def
        sim_defs asc_def)
  from direct through show ?thesis by simp
qed

section \<open>Results: fillForm\<close>

lemmas ex_form_defs = ex_field_in_def ex_field_out_def ex_field_guests_def ex_field_promo_def
  ex_form_search_def ex_data_def

lemma fillFields_filled:
  "\<exists>w'. fillFields lc drv page (Some d) fs actions w
     = Inr (actions @ map (summaryEntry lc d) (filledFields lc drv page d fs w), w')"
proof (induction fs arbitrary: actions w)
  case Nil
  show ?case by simp
next
  case (Cons f fs)
  show ?case
  proof (cases "resolved lc d f")
    case False
    then show ?thesis using Cons.IH [of actions w]
      by (simp add: fieldValue_def resolved_def)
  next
    case True
    obtain ok w1 where
      t: "trySelectors drv page f (the (resolveValue lc f d)) (fieldSelectors f) w = (ok, w1)"
      by (cases "trySelectors drv page f (the (resolveValue lc f d)) (fieldSelectors f) w")
    show ?thesis
    proof (cases ok)
      case True
      with \<open>resolved lc d f\<close> t
        Cons.IH [of "actions @ [fieldEntry f (the (resolveValue lc f d))]" w1]
      show ?thesis by (simp add: fieldValue_def resolved_def summaryEntry_def)
    next
      case False
      with \<open>resolved lc d f\<close> t Cons.IH [of actions w1]
      show ?thesis by (simp add: fieldValue_def resolved_def)
    qed
  qed
qed

lemma filledFields_subseq:
  "subseq (filledFields lc drv page d fs w) (filter (resolved lc d) fs)"
proof (induction fs arbitrary: w)
  case Nil
  show ?case by simp
next
  case (Cons f fs)
  show ?case
  proof (cases "resolved lc d f")
    case False
    then show ?thesis using Cons.IH [of w] by simp
  next
    case True
    obtain ok w1 where
      t: "trySelectors drv page f (the (resolveValue lc f d)) (fieldSelectors f) w = (ok, w1)"
      by (cases "trySelectors drv page f (the (resolveValue lc f d)) (fieldSelectors f) w")
    show ?thesis using True t Cons.IH [of w1]
      by (cases ok) (auto intro: list_emb_Cons)
  qed
qed

lemma fillFields_filter:
  "fillFields lc drv page (Some d) (filter (resolved lc d) fs) actions w
     = fillFields lc drv page (Some d) fs actions w"
proof (induction fs arbitrary: actions w)
  case Nil
  show ?case by simp
next
  case (Cons f fs)
  show ?case
  proof (cases "resolved lc d f")
    case False
    then show ?thesis using Cons.IH [of actions w]
      by (simp add: fieldValue_def resolved_def)
  next
    case True
    then show ?thesis using Cons.IH
      by (simp add: fieldValue_def resolved_def split: prod.splits bool.splits)
  qed
qed

lemma fillForm_filter:
  "fillForm lc drv page (form\<lparr>form_fields := filter (resolved lc d) (form_fields form)\<rparr>) (Some d) w
     = fillForm lc drv page form (Some d) w"
  by (simp add: fillForm_def fillFields_filter clickSubmit_def split: sum.splits prod.splits)

lemma resolved_vocabulary:
  assumes "resolved lc d field"
  shows "(matchesVocabulary lc PATTERNS_check_in field \<and> truthy_str (check_in d)
            \<and> resolveValue lc field d = check_in d)
       \<or> (matchesVocabulary lc PATTERNS_check_out field \<and> truthy_str (check_out d)
            \<and> resolveValue lc field d = check_out d)
       \<or> (matchesVocabulary lc PATTERNS_guests field
            \<and> (\<exists>n. guests d = Some n \<and> num_truthy n
                  \<and> resolveValue lc field d = Some (num_String n)))"
  using assms
  by (auto simp: resolved_def resolveValue_def truthy_str_def truthy_num_def
      split: if_splits option.splits)

lemma clickSubmit_exact:
  "clickSubmit drv page form actions w =
     (if actions = [] then (actions, w)
      else (actions @ (if submitClicked drv page form w then [msg_search] else []),
            afterSubmit drv page form w))"
  by (simp add: clickSubmit_def submitClicked_def afterSubmit_def split: prod.splits bool.splits)

lemma fillForm_summary:
  "\<exists>res w1.
      fillFields lc drv page (Some d) (form_fields form) [] w
        = Inr (map (summaryEntry lc d) (filledFields lc drv page d (form_fields form) w), w1)
      \<and> fillForm lc drv page form (Some d) w
        = Inr (res,
               snd (quickObserve drv page
                      (if filledFields lc drv page d (form_fields form) w = [] then w1
                       else afterSubmit drv page form w1)))
      \<and> message res =
          (if filledFields lc drv page d (form_fields form) w = [] then msg_fill_failed
           else msg_filled @ join (asc '', '')
                  (map (summaryEntry lc d) (filledFields lc drv page d (form_fields form) w)
                   @ (if submitClicked drv page form w1 then [msg_search] else [])))"
proof -
  let ?filled = "filledFields lc drv page d (form_fields form) w"
  from fillFields_filled [of lc drv page d "form_fields form" "[]" w]
  obtain w1 where f: "fillFields lc drv page (Some d) (form_fields form) [] w
      = Inr (map (summaryEntry lc d) ?filled, w1)"
    by auto
  let ?w2 = "if ?filled = [] then w1 else afterSubmit drv page form w1"
  obtain obs w3 where q: "quickObserve drv page ?w2 = (obs, w3)"
    by (cases "quickObserve drv page ?w2")
  let ?res = "\<lparr>message =
                 (if ?filled = [] then msg_fill_failed
                  else msg_filled @ join (asc '', '')
                         (map (summaryEntry lc d) ?filled
                          @ (if submitClicked drv page form w1 then [msg_search] else []))),
               observation = Some (Snapshot obs)\<rparr>"
  from f q have "fillForm lc drv page form (Some d) w = Inr (?res, w3)"
    by (cases "?filled = []") (simp_all add: fillForm_def clickSubmit_exact)
  with f q have
    "fillFields lc drv page (Some d) (form_fields form) [] w
        = Inr (map (summaryEntry lc d) ?filled, w1)
     \<and> fillForm lc drv page form (Some d) w = Inr (?res, snd (quickObserve drv page ?w2))
     \<and> message ?res =
          (if ?filled = [] then msg_fill_failed
           else msg_filled @ join (asc '', '')
                  (map (summaryEntry lc d) ?filled
                   @ (if submitClicked drv page form w1 then [msg_search] else [])))"
    by simp
  then show ?thesis by blast
qed

text \<open>
  C6 (as stated). The success message lists the filled fields and nothing else. On the
  search form, with the selectors of the check-in field, the guests field and the submit
  button resolving, the check-in and the guests are filled and the message ends with a
  third entry, "Tarsene", pushed after the submit click.
\<close>

theorem fillForm_summary_counterexample:
  "fillForm toLowerCase simDriver 0 ex_form_search (Some ex_data)
       (sim_world [asc ''#in'', asc ''#guests'', asc ''#go''])
     = Inr (\<lparr>message = msg_filled @ asc ''check in: 2025-02-15, guests: 2, '' @ msg_search,
             observation = Some (Snapshot sim_snapshot)\<rparr>,
            (sim_world [asc ''#in'', asc ''#guests'', asc ''#go''])
              \<lparr>clock := 2500,
               events := [FillIn 0 (asc ''#in'') (asc ''2025-02-15'') True,
                          SelectIn 0 (asc ''#guests'') (asc ''2'') True,
                          ClickOn 0 (asc ''#go'') True]\<rparr>)
   \<and> filledFields toLowerCase simDriver 0 ex_data (form_fields ex_form_search)
       (sim_world [asc ''#in'', asc ''#guests'', asc ''#go'']) = [ex_field_in, ex_field_guests]
   \<and> msg_filled @ asc ''check in: 2025-02-15, guests: 2, '' @ msg_search
       \<noteq> msg_filled @ join (asc '', '')
            (map (summaryEntry toLowerCase ex_data) [ex_field_in, ex_field_guests])"
  by (simp add: fillForm_def clickSubmit_def quickObserve_def fieldValue_def resolveValue_def
      resolved_def matchesVocabulary_def fieldSelectors_def fieldEntry_def fieldLabel_def
      summaryEntry_def String_int_def safeInteger_def truthy_num_def truthy_str_def dq_def
      toLowerCase_def lower_unit_def
      PATTERNS_check_in_def PATTERNS_check_out_def PATTERNS_guests_def
      msg_filled_def msg_search_def sim_defs ex_form_defs asc_def)

text \<open>
  C6 (amended). With structured data present: a field gets a value only if its
  lower-cased keywords meet the check-in, the check-out or the guests vocabulary and
  that datum is truthy (first vocabulary in this order); the fields that get no value
  could be deleted from the form without changing the result or the world, so no driver
  call is made for them; the filled fields are a subsequence of the resolved ones; and
  the message is the failure sentence when nothing was filled, otherwise "Popalnih: "
  followed by one "label: value" entry per filled field, in order, and by a last entry
  "Tarsene" exactly when, in the world \<open>w1\<close> that the loop over the fields leaves, the
  form declares a submit control, the click on it succeeds and the settle wait passes.
  When nothing was filled the submit control is not clicked at all: the snapshot is taken
  in \<open>w1\<close> itself.
\<close>

theorem fillForm_only_resolved_fields:
  "fillForm lc drv page (form\<lparr>form_fields := filter (resolved lc d) (form_fields form)\<rparr>) (Some d) w
     = fillForm lc drv page form (Some d) w
   \<and> (resolved lc d field \<longrightarrow>
        (matchesVocabulary lc PATTERNS_check_in field \<and> truthy_str (check_in d)
            \<and> resolveValue lc field d = check_in d)
        \<or> (matchesVocabulary lc PATTERNS_check_out field \<and> truthy_str (check_out d)
            \<and> resolveValue lc field d = check_out d)
        \<or> (matchesVocabulary lc PATTERNS_guests field
            \<and> (\<exists>n. guests d = Some n \<and> num_truthy n
                  \<and> resolveValue lc field d = Some (num_String n))))
   \<and> subseq (filledFields lc drv page d (form_fields form) w)
        (filter (resolved lc d) (form_fields form))
   \<and> (\<exists>res w1.
        fillFields lc drv page (Some d) (form_fields form) [] w
          = Inr (map (summaryEntry lc d) (filledFields lc drv page d (form_fields form) w), w1)
        \<and> fillForm lc drv page form (Some d) w
          = Inr (res,
                 snd (quickObserve drv page
                        (if filledFields lc drv page d (form_fields form) w = [] then w1
                         else afterSubmit drv page form w1)))
        \<and> message res =
            (if filledFields lc drv page d (form_fields form) w = [] then msg_fill_failed
             else msg_filled @ join (asc '', '')
                    (map (summaryEntry lc d) (filledFields lc drv page d (form_fields form) w)
                     @ (if submitClicked drv page form w1 then [msg_search] else []))))"
  using fillForm_filter [where lc = lc and drv = drv and page = page and form = form and d = d and w = w]
    resolved_vocabulary [where lc = lc and d = d and field = field]
    filledFields_subseq [where lc = lc and drv = drv and page = page and d = d
      and fs = "form_fields form" and w = w]
    fillForm_summary [where lc = lc and drv = drv and page = page and form = form and d = d and w = w]
  by blast

theorem fillForm_only_resolved_fields_witness:
  "resolved toLowerCase ex_data ex_field_in
   \<and> matchesVocabulary toLowerCase PATTERNS_check_in ex_field_in
   \<and> resolveValue toLowerCase ex_field_in ex_data = Some (asc ''2025-02-15'')
   \<and> \<not> resolved toLowerCase ex_data ex_field_promo
   \<and> filter (resolved toLowerCase ex_data) (form_fields ex_form_search)
       = [ex_field_in, ex_field_out, ex_field_guests]
   \<and> fillForm toLowerCase simDriver 0
        (ex_form_search\<lparr>form_fields := [ex_field_in, ex_field_out, ex_field_guests]\<rparr>)
        (Some ex_data) (sim_world [asc ''#in'', asc ''#guests'', asc ''#go''])
       = fillForm toLowerCase simDriver 0 ex_form_search (Some ex_data)
           (sim_world [asc ''#in'', asc ''#guests'', asc ''#go''])
   \<and> submitClicked simDriver 0 ex_form_search
        ((sim_world [asc ''#in'', asc ''#guests'', asc ''#go''])
           \<lparr>events := [FillIn 0 (asc ''#in'') (asc ''2025-02-15'') True,
                       SelectIn 0 (asc ''#guests'') (asc ''2'') True]\<rparr>)
   \<and> \<not> submitClicked simDriver 0 ex_form_search
        ((sim_world [asc ''#in'', asc ''#guests''])
           \<lparr>events := [FillIn 0 (asc ''#in'') (asc ''2025-02-15'') True,
                       SelectIn 0 (asc ''#guests'') (asc ''2'') True]\<rparr>)
   \<and> (\<exists>res w'. fillForm toLowerCase simDriver 0 ex_form_search (Some ex_data)
                   (sim_world [asc ''#in'', asc ''#guests'', asc ''#go'']) = Inr (res, w')
          \<and> message res = msg_filled @ asc ''check in: 2025-02-15, guests: 2, '' @ msg_search)
   \<and> (\<exists>res w'. fillForm toLowerCase simDriver 0 ex_form_search (Some ex_data)
                   (sim_world [asc ''#in'', asc ''#guests'']) = Inr (res, w')
          \<and> message res = msg_filled @ asc ''check in: 2025-02-15, guests: 2'')"
proof -
  let ?W = "sim_world [asc ''#in'', asc ''#guests'', asc ''#go'']"
  let ?V = "sim_world [asc ''#in'', asc ''#guests'']"
  let ?ev = "[FillIn 0 (asc ''#in'') (asc ''2025-02-15'') True,
              SelectIn 0 (asc ''#guests'') (asc ''2'') True]"
  note value_defs = resolved_def resolveValue_def matchesVocabulary_def truthy_str_def
    String_int_def safeInteger_def truthy_num_def toLowerCase_def lower_unit_def
    PATTERNS_check_in_def PATTERNS_check_out_def PATTERNS_guests_def ex_form_defs asc_def
  have r: "resolved toLowerCase ex_data ex_field_in
      \<and> matchesVocabulary toLowerCase PATTERNS_check_in ex_field_in
      \<and> resolveValue toLowerCase ex_field_in ex_data = Some (asc ''2025-02-15'')
      \<and> \<not> resolved toLowerCase ex_data ex_field_promo"
    by (simp add: value_defs)
  have f: "filter (resolved toLowerCase ex_data) (form_fields ex_form_search)
       = [ex_field_in, ex_field_out, ex_field_guests]"
    by (simp add: value_defs)
  have s: "submitClicked simDriver 0 ex_form_search (?W\<lparr>events := ?ev\<rparr>)
      \<and> \<not> submitClicked simDriver 0 ex_form_search (?V\<lparr>events := ?ev\<rparr>)"
    by (simp add: submitClicked_def sim_defs ex_form_search_def asc_def)
  have filled: "filledFields toLowerCase simDriver 0 ex_data (form_fields ex_form_search) ?W
        = [ex_field_in, ex_field_guests]
      \<and> filledFields toLowerCase simDriver 0 ex_data (form_fields ex_form_search) ?V
        = [ex_field_in, ex_field_guests]"
    by (simp add: value_defs fieldSelectors_def dq_def sim_defs)
  have loopW: "fillFields toLowerCase simDriver 0 (Some ex_data) (form_fields ex_form_search) [] ?W
        = Inr ([asc ''check in: 2025-02-15'', asc ''guests: 2''], ?W\<lparr>events := ?ev\<rparr>)"
    by (simp add: value_defs fieldValue_def fieldSelectors_def fieldEntry_def fieldLabel_def
        dq_def sim_defs)
  have loopV: "fillFields toLowerCase simDriver 0 (Some ex_data) (form_fields ex_form_search) [] ?V
        = Inr ([asc ''check in: 2025-02-15'', asc ''guests: 2''], ?V\<lparr>events := ?ev\<rparr>)"
    by (simp add: value_defs fieldValue_def fieldSelectors_def fieldEntry_def fieldLabel_def
        dq_def sim_defs)
  have entries: "map (summaryEntry toLowerCase ex_data) [ex_field_in, ex_field_guests]
        = [asc ''check in: 2025-02-15'', asc ''guests: 2'']"
    by (simp add: summaryEntry_def fieldEntry_def fieldLabel_def value_defs)
  note t = fillForm_only_resolved_fields
    [where lc = toLowerCase and drv = simDriver and page = 0 and form = ex_form_search
      and d = ex_data and w = ?W and field = ex_field_in]
  note u = fillForm_only_resolved_fields
    [where lc = toLowerCase and drv = simDriver and page = 0 and form = ex_form_search
      and d = ex_data and w = ?V and field = ex_field_in]
  from t have same: "fillForm toLowerCase simDriver 0
        (ex_form_search\<lparr>form_fields :=
           filter (resolved toLowerCase ex_data) (form_fields ex_form_search)\<rparr>)
        (Some ex_data) ?W
       = fillForm toLowerCase simDriver 0 ex_form_search (Some ex_data) ?W"
    by blast
  from t obtain res w1 where
    a: "fillFields toLowerCase simDriver 0 (Some ex_data) (form_fields ex_form_search) [] ?W
          = Inr (map (summaryEntry toLowerCase ex_data)
                   (filledFields toLowerCase simDriver 0 ex_data (form_fields ex_form_search) ?W), w1)"
    and b: "\<exists>w'. fillForm toLowerCase simDriver 0 ex_form_search (Some ex_data) ?W = Inr (res, w')"
    and c: "message res =
            (if filledFields toLowerCase simDriver 0 ex_data (form_fields ex_form_search) ?W = []
             then msg_fill_failed
             else msg_filled @ join (asc '', '')
                    (map (summaryEntry toLowerCase ex_data)
                       (filledFields toLowerCase simDriver 0 ex_data (form_fields ex_form_search) ?W)
                     @ (if submitClicked simDriver 0 ex_form_search w1 then [msg_search] else [])))"
    by blast
  from a loopW have "w1 = ?W\<lparr>events := ?ev\<rparr>" by simp
  with c filled entries s have
    "message res = msg_filled @ asc ''check in: 2025-02-15, guests: 2, '' @ msg_search"
    by (simp add: asc_def)
  with b have mW: "\<exists>res w'. fillForm toLowerCase simDriver 0 ex_form_search (Some ex_data) ?W
        = Inr (res, w')
      \<and> message res = msg_filled @ asc ''check in: 2025-02-15, guests: 2, '' @ msg_search"
    by blast
  from u obtain res' w1' where
    a': "fillFields toLowerCase simDriver 0 (Some ex_data) (form_fields ex_form_search) [] ?V
          = Inr (map (summaryEntry toLowerCase ex_data)
                   (filledFields toLowerCase simDriver 0 ex_data (form_fields ex_form_search) ?V), w1')"
    and b': "\<exists>w'. fillForm toLowerCase simDriver 0 ex_form_search (Some ex_data) ?V = Inr (res', w')"
    and c': "message res' =
            (if filledFields toLowerCase simDriver 0 ex_data (form_fields ex_form_search) ?V = []
             then msg_fill_failed
             else msg_filled @ join (asc '', '')
                    (map (summaryEntry toLowerCase ex_data)
                       (filledFields toLowerCase simDriver 0 ex_data (form_fields ex_form_search) ?V)
                     @ (if submitClicked simDriver 0 ex_form_search w1' then [msg_search] else [])))"
    by blast
  from a' loopV have "w1' = ?V\<lparr>events := ?ev\<rparr>" by simp
  with c' filled entries s have
    "message res' = msg_filled @ asc ''check in: 2025-02-15, guests: 2''"
    by (simp add: asc_def)
  with b' have mV: "\<exists>res w'. fillForm toLowerCase simDriver 0 ex_form_search (Some ex_data) ?V
        = Inr (res, w')
      \<and> message res = msg_filled @ asc ''check in: 2025-02-15, guests: 2''"
    by blast
  from r f same s mW mV show ?thesis by simp
qed

section \<open>Results: getContactInfo\<close>

lemma startsWith_append: "startsWith s p \<Longrightarrow> s = p @ drop (length p) s"
  by (induction s p rule: startsWith.induct) auto

lemma greedy_consumes:
  "rest \<in> set (greedy p lo hi s) \<Longrightarrow> \<exists>u. s = u @ rest \<and> lo \<le> length u"
proof (induction s arbitrary: lo hi)
  case Nil
  then show ?case by (auto split: if_splits)
next
  case (Cons c cs)
  show ?case
  proof (cases "rest = c # cs \<and> lo = 0")
    case True
    then show ?thesis by simp
  next
    case False
    with Cons.prems have "rest \<in> set (greedy p (lo - 1) (map_option (\<lambda>h. h - 1) hi) cs)"
      by (auto split: if_splits)
    from Cons.IH [OF this] obtain u where "cs = u @ rest" "lo - 1 \<le> length u" by blast
    then have "c # cs = (c # u) @ rest \<and> lo \<le> length (c # u)" by auto
    then show ?thesis by blast
  qed
qed

lemma run_consumes:
  "rest \<in> set (run r s) \<Longrightarrow> \<exists>u. s = u @ rest \<and> min_len r \<le> length u"
proof (induction r arbitrary: s rest)
  case (Str l)
  then have "startsWith s l" "rest = drop (length l) s" by (auto split: if_splits)
  with startsWith_append [of s l] have "s = l @ rest" by simp
  then show ?case by auto
next
  case (Seq a b)
  then obtain mid where m: "mid \<in> set (run a s)" "rest \<in> set (run b mid)" by auto
  from Seq.IH(1) [OF m(1)] obtain u where u: "s = u @ mid" "min_len a \<le> length u" by blast
  from Seq.IH(2) [OF m(2)] obtain v where v: "mid = v @ rest" "min_len b \<le> length v" by blast
  from u v have "s = (u @ v) @ rest \<and> min_len (Seq a b) \<le> length (u @ v)" by simp
  then show ?case by blast
next
  case (Alt a b)
  then have "rest \<in> set (run a s) \<or> rest \<in> set (run b s)" by auto
  then show ?case using Alt.IH by (fastforce simp: min_def)
next
  case (Many p lo hi)
  then show ?case using greedy_consumes [of rest p lo hi s] by simp
qed

lemma match_at_nonempty:
  assumes "0 < min_len r" and "match_at r s = Some m"
  shows "m \<noteq> []"
proof -
  from assms(2) obtain rest rs where r: "run r s = rest # rs" "m = take (length s - length rest) s"
    by (auto simp: match_at_def split: list.splits)
  then have "rest \<in> set (run r s)" by simp
  from run_consumes [OF this] obtain u where "s = u @ rest" "min_len r \<le> length u" by blast
  with assms(1) r(2) show ?thesis by auto
qed

lemma search_nonempty:
  assumes "0 < min_len r"
  shows "search r s = Some m \<Longrightarrow> m \<noteq> []"
proof (induction s)
  case Nil
  then show ?case using match_at_nonempty [OF assms] by simp
next
  case (Cons c cs)
  then show ?case using match_at_nonempty [OF assms]
    by (auto split: option.splits)
qed

lemma search_here: "run r s \<noteq> [] \<Longrightarrow> search r s \<noteq> None"
  by (cases s) (auto simp: match_at_def split: list.splits option.splits)

lemma search_found: "run r s \<noteq> [] \<Longrightarrow> search r (pre @ s) \<noteq> None"
proof (induction pre)
  case Nil
  then show ?case using search_here by simp
next
  case (Cons c pre)
  then show ?case by (auto split: option.splits)
qed

lemma includes_decomp: "str_includes s p \<Longrightarrow> \<exists>pre post. s = pre @ p @ post"
proof (induction s)
  case Nil
  then show ?case by simp
next
  case (Cons c cs)
  show ?case
  proof (cases "startsWith (c # cs) p")
    case True
    from startsWith_append [OF this] have "c # cs = [] @ p @ drop (length p) (c # cs)" by simp
    then show ?thesis by blast
  next
    case False
    with Cons.prems have "str_includes cs p" by simp
    from Cons.IH [OF this] obtain pre post where "cs = pre @ p @ post" by blast
    then have "c # cs = (c # pre) @ p @ post" by simp
    then show ?thesis by blast
  qed
qed

lemmas re_defs = re_digit_def re_word_def re_space_def re_sep_def re_mail_def

lemma phone_here: "run phone_permissive (asc ''+359 88 123 4567'' @ post) \<noteq> []"
  by (simp add: phone_permissive_def asc_def re_defs)

lemma email_here: "run email_pattern (asc ''a@b.com'' @ post) \<noteq> []"
  by (simp add: email_pattern_def asc_def re_defs)

lemma min_len_patterns:
  "0 < min_len phone_permissive" "0 < min_len phone_strict" "0 < min_len email_pattern"
  by (simp_all add: phone_permissive_def phone_strict_def email_pattern_def asc_def)

lemma contactScript_nonempty:
  "fst (contactScript t) \<noteq> Some []" "snd (contactScript t) \<noteq> Some []"
  using search_nonempty [OF min_len_patterns(1), of t "[]"]
    search_nonempty [OF min_len_patterns(2), of t "[]"]
    search_nonempty [OF min_len_patterns(3), of t "[]"]
  by (auto simp: contactScript_def split: option.splits)

lemma contactMessage_cases:
  "contactMessage (contactScript t) =
     (case contactScript t of
        (Some p, Some e) \<Rightarrow> msg_phone @ p @ asc ''. '' @ asc ''Email: '' @ e
      | (Some p, None) \<Rightarrow> msg_phone @ p
      | (None, Some e) \<Rightarrow> asc ''Email: '' @ e
      | (None, None) \<Rightarrow> msg_no_contact)"
  using contactScript_nonempty [of t]
  by (cases "contactScript t")
     (auto simp: contactMessage_def truthy_str_def split: option.splits)

lemma contact_both:
  assumes "str_includes t (asc ''+359 88 123 4567'')" and "str_includes t (asc ''a@b.com'')"
  shows "\<exists>p e. p \<noteq> [] \<and> e \<noteq> [] \<and> contactScript t = (Some p, Some e)
           \<and> search phone_permissive t = Some p
           \<and> contactMessage (contactScript t) = msg_phone @ p @ asc ''. '' @ asc ''Email: '' @ e"
proof -
  from includes_decomp [OF assms(1)] obtain pre post where
    "t = pre @ asc ''+359 88 123 4567'' @ post" by blast
  with search_found [OF phone_here, of pre post] obtain p where
    p: "search phone_permissive t = Some p" by auto
  from includes_decomp [OF assms(2)] obtain pre' post' where
    "t = pre' @ asc ''a@b.com'' @ post'" by blast
  with search_found [OF email_here, of pre' post'] obtain e where
    e: "search email_pattern t = Some e" by auto
  from p e have c: "contactScript t = (Some p, Some e)"
    by (simp add: contactScript_def)
  with contactScript_nonempty [of t] have "p \<noteq> []" "e \<noteq> []" by auto
  with c p contactMessage_cases [of t] show ?thesis by simp
qed

text \<open>
  C9. The script takes the phone from the permissive pattern, and from the strict one
  only when the permissive pattern has no match, and the address from the one e-mail
  pattern; the message lists the phone part before the e-mail part, joined by ". ", or
  is the fixed not-found sentence when neither is found (and a fixed failure sentence
  when the page cannot be read). Every text that contains "+359 88 123 4567" and
  "a@b.com" gets a message with a phone part followed by an e-mail part; on the text made
  of just these two the message is "Telefon: +359 88 123 456. Email: a@b.com" (the
  permissive pattern ends after three groups of digits, so the reported phone stops
  before the last digit).
\<close>

theorem getContactInfo_report:
  "(innerText drv page w = (Some t, w') \<longrightarrow>
      getContactInfo drv page w
        = (\<lparr>message = contactMessage (contactScript t), observation = None\<rparr>, w'))
   \<and> (innerText drv page w = (None, w') \<longrightarrow>
      getContactInfo drv page w = (\<lparr>message = msg_contact_failed, observation = None\<rparr>, w'))
   \<and> fst (contactScript t)
       = (case search phone_permissive t of Some p \<Rightarrow> Some p
          | None \<Rightarrow> search phone_strict t)
   \<and> snd (contactScript t) = search email_pattern t
   \<and> contactMessage (contactScript t) =
       (case contactScript t of
          (Some p, Some e) \<Rightarrow> msg_phone @ p @ asc ''. '' @ asc ''Email: '' @ e
        | (Some p, None) \<Rightarrow> msg_phone @ p
        | (None, Some e) \<Rightarrow> asc ''Email: '' @ e
        | (None, None) \<Rightarrow> msg_no_contact)
   \<and> (str_includes t (asc ''+359 88 123 4567'') \<and> str_includes t (asc ''a@b.com'') \<longrightarrow>
        (\<exists>p e. p \<noteq> [] \<and> e \<noteq> [] \<and> contactScript t = (Some p, Some e)
           \<and> search phone_permissive t = Some p
           \<and> contactMessage (contactScript t)
               = msg_phone @ p @ asc ''. '' @ asc ''Email: '' @ e))
   \<and> contactMessage (contactScript (asc ''+359 88 123 4567 a@b.com''))
       = msg_phone @ asc ''+359 88 123 456. Email: a@b.com''"
proof -
  have a: "innerText drv page w = (Some t, w') \<longrightarrow>
      getContactInfo drv page w
        = (\<lparr>message = contactMessage (contactScript t), observation = None\<rparr>, w')"
    by (simp add: getContactInfo_def)
  have b: "innerText drv page w = (None, w') \<longrightarrow>
      getContactInfo drv page w = (\<lparr>message = msg_contact_failed, observation = None\<rparr>, w')"
    by (simp add: getContactInfo_def)
  have c: "fst (contactScript t)
       = (case search phone_permissive t of Some p \<Rightarrow> Some p
          | None \<Rightarrow> search phone_strict t)"
    by (simp add: contactScript_def split: option.splits)
  have d: "snd (contactScript t) = search email_pattern t"
    by (simp add: contactScript_def)
  note e = contactMessage_cases [of t]
  have f: "str_includes t (asc ''+359 88 123 4567'') \<and> str_includes t (asc ''a@b.com'') \<longrightarrow>
        (\<exists>p e. p \<noteq> [] \<and> e \<noteq> [] \<and> contactScript t = (Some p, Some e)
           \<and> search phone_permissive t = Some p
           \<and> contactMessage (contactScript t)
               = msg_phone @ p @ asc ''. '' @ asc ''Email: '' @ e)"
    using contact_both [of t] by blast
  have g: "contactMessage (contactScript (asc ''+359 88 123 4567 a@b.com''))
       = msg_phone @ asc ''+359 88 123 456. Email: a@b.com''"
    by (simp add: contactMessage_def contactScript_def match_at_def phone_permissive_def
        email_pattern_def truthy_str_def asc_def re_defs)
  from a b c d e f g show ?thesis by (intro conjI)
qed

theorem getContactInfo_report_witness:
  "innerText simDriver 0 sim_contact_world
     = (Some (asc ''Call +359 88 123 4567 or write to a@b.com.''), sim_contact_world)
   \<and> str_includes (asc ''Call +359 88 123 4567 or write to a@b.com.'') (asc ''+359 88 123 4567'')
   \<and> str_includes (asc ''Call +359 88 123 4567 or write to a@b.com.'') (asc ''a@b.com'')
   \<and> getContactInfo simDriver 0 sim_contact_world
       = (\<lparr>message = msg_phone @ asc ''+359 88 123 456. Email: a@b.com'', observation = None\<rparr>,
          sim_contact_world)"
proof -
  have i: "innerText simDriver 0 sim_contact_world
     = (Some (asc ''Call +359 88 123 4567 or write to a@b.com.''), sim_contact_world)"
    by (simp add: sim_contact_world_def sim_defs)
  have s: "str_includes (asc ''Call +359 88 123 4567 or write to a@b.com.'') (asc ''+359 88 123 4567'')
      \<and> str_includes (asc ''Call +359 88 123 4567 or write to a@b.com.'') (asc ''a@b.com'')"
    by (simp add: asc_def)
  have m: "contactMessage (contactScript (asc ''Call +359 88 123 4567 or write to a@b.com.''))
      = msg_phone @ asc ''+359 88 123 456. Email: a@b.com''"
    by (simp add: contactMessage_def contactScript_def match_at_def phone_permissive_def
        email_pattern_def truthy_str_def asc_def re_defs)
  from getContactInfo_report
    [where drv = simDriver and page = 0 and w = sim_contact_world and w' = sim_contact_world
      and t = "asc ''Call +359 88 123 4567 or write to a@b.com.''"] i
  have "getContactInfo simDriver 0 sim_contact_world
      = (\<lparr>message = contactMessage (contactScript (asc ''Call +359 88 123 4567 or write to a@b.com.'')),
           observation = None\<rparr>, sim_contact_world)"
    by blast
  with i s m show ?thesis by simp
qed

section \<open>Results: the session store\<close>

lemma Map_delete_absent: "map_of es k = None \<Longrightarrow> Map_delete k es = es"
  by (induction es) (auto simp: Map_delete_def split: if_splits)

lemma map_of_Map_delete: "map_of (Map_delete k es) k' = (if k' = k then None else map_of es k')"
  by (induction es) (auto simp: Map_delete_def)

lemma keys_Map_delete: "map fst (Map_delete k es) = filter (\<lambda>x. x \<noteq> k) (map fst es)"
  by (induction es) (auto simp: Map_delete_def)



lemma Map_delete_append:
  "Map_delete k (es @ fs) = Map_delete k es @ Map_delete k fs"
  by (simp add: Map_delete_def)

lemma Map_set_absent: "map_of es k = None \<Longrightarrow> Map_set k v es = es @ [(k, v)]"
  by (induction es) (auto split: if_splits)

lemma sessions_closeSession:
  "sessions (fst (closeSession drv k st)) = Map_delete k (sessions (fst st))"
  by (cases st) (auto simp: closeSession_def Map_delete_absent split: option.splits)

lemma isReady_closeSession: "isReady (fst (closeSession drv k st)) = isReady (fst st)"
  by (cases st) (auto simp: closeSession_def split: option.splits)


lemma sessions_startClose: "sessions (fst (startClose drv k st)) = sessions (fst st)"
  by (cases st) (auto simp: startClose_def split: option.splits prod.splits)

lemma isReady_startClose: "isReady (fst (startClose drv k st)) = isReady (fst st)"
  by (cases st) (auto simp: startClose_def split: option.splits prod.splits)







lemma sessions_evictOldestSession:
  "sessions (fst (evictOldestSession drv st)) = sessions (fst st)"
  by (simp add: evictOldestSession_def sessions_startClose split: option.splits)

lemma prepareSession_parts:
  assumes "isReady (fst st)" and "prepareSession drv siteId siteMap st = (ok, m', w')"
  shows "(if ok then \<exists>new. sessions m' = Map_delete siteId (sessions (fst st)) @ [(siteId, new)]
                      \<and> s_siteMap new = siteMap
          else sessions m' = Map_delete siteId (sessions (fst st)))
       \<and> closing m' =
           closing (fst (if MAX_SESSIONS \<le> length (Map_delete siteId (sessions (fst st)))
                         then evictOldestSession drv (closeSession drv siteId st)
                         else closeSession drv siteId st))"
proof -
  let ?st1 = "closeSession drv siteId st"
  let ?st2 = "if MAX_SESSIONS \<le> length (sessions (fst ?st1)) then evictOldestSession drv ?st1 else ?st1"
  have s2: "sessions (fst ?st2) = Map_delete siteId (sessions (fst st))"
    by (simp add: sessions_evictOldestSession sessions_closeSession)
  obtain m2 w2 where st2: "?st2 = (m2, w2)" by (cases ?st2)
  with s2 have m2: "sessions m2 = Map_delete siteId (sessions (fst st))" by simp
  then have absent: "map_of (sessions m2) siteId = None" by (simp add: map_of_Map_delete)
  have c2: "closing m2 =
           closing (fst (if MAX_SESSIONS \<le> length (Map_delete siteId (sessions (fst st)))
                         then evictOldestSession drv (closeSession drv siteId st)
                         else closeSession drv siteId st))"
    using st2 by (simp add: sessions_closeSession split: if_splits)
  from assms st2 m2 absent c2 show ?thesis
    by (auto simp: prepareSession_def Map_set_absent
        split: prod.splits option.splits bool.splits)
qed

lemma prepareSession_not_ready:
  "\<not> isReady (fst st) \<Longrightarrow> prepareSession drv siteId siteMap st = (False, st)"
  by (simp add: prepareSession_def)

lemma url_ex_siteMap: "normalizeUrl (url ex_siteMap) = asc ''https://hotel.example''"
  by (simp add: normalizeUrl_def ex_siteMap_def asc_def)

lemma ex_session_sel:
  "s_page (ex_session h t) = h" "s_context (ex_session h t) = 1000 + h"
  "lastActivity (ex_session h t) = t" "s_siteMap (ex_session h t) = ex_siteMap"
  by (simp_all add: ex_session_def)

lemmas prepare_sim_defs = prepareSession_def closeSession_def evictOldestSession_def
  startClose_def Map_delete_def full_store_def ex_session_sel busy_world_def MAX_SESSIONS_def
  simDriver_def sim_world_def sim_alive_def url_ex_siteMap





text \<open>
  On the full store, preparing the new id 99 returns with 51 entries: the oldest session
  (id 100) is still stored, its close in flight. Two resumptions of that close later
  the entry is gone and the store holds 50.
\<close>

lemma eviction_settles_after_insertion:
  "length (sessions (fst (snd (prepareSession simDriver [99] ex_siteMap (full_store, busy_world)))))
     = 51
   \<and> map_of (sessions (fst (snd (prepareSession simDriver [99] ex_siteMap (full_store, busy_world)))))
        [100] = Some (ex_session 100 100)
   \<and> map fst (sessions (fst (run_operations toLowerCase simDriver (full_store, busy_world)
        [Prepare [99] ex_siteMap, Resume 0, Resume 0])))
       = map fst (Map_delete [100] (sessions full_store)) @ [[99]]
   \<and> closing (fst (run_operations toLowerCase simDriver (full_store, busy_world)
        [Prepare [99] ex_siteMap, Resume 0, Resume 0])) = []"
  by (simp add: run_operations_def step_def resumeClose_def prepare_sim_defs)

section \<open>Results: execute and prepareSession\<close>

lemmas stale_defs = stale_manager_def stale_world_def ex_request_def ex_siteMap_buttons_def
  ex_siteMap_def ex_button_book_def offline_world_def

lemma execute_recovery:
  assumes "map_of (sessions m) (req_site_id request) = Some stored"
      and "evaluate_true drv (s_page stored) w = (False, w1)"
      and "prepareSession drv (req_site_id request) (s_siteMap stored)
             (m\<lparr>sessions := Map_set (req_site_id request) (stored\<lparr>lastActivity := now drv w\<rparr>)
                               (sessions m)\<rparr>, w1) = (ok, m2, w2)"
  shows "execute lc drv request (m, w) =
           (case map_of (sessions m2) (req_site_id request) of
              None \<Rightarrow> (failed msg_recovery_failed, m2, w2)
            | Some newSession \<Rightarrow>
                (case runAction lc drv request (stored\<lparr>lastActivity := now drv w\<rparr>) w2 of
                   (r, w3) \<Rightarrow> (r, m2, w3)))"
  using assms by (simp add: execute_def Let_def)

lemma execute_recovery_failed:
  assumes "map_of (sessions m) (req_site_id request) = Some stored"
      and "evaluate_true drv (s_page stored) w = (False, w1)"
      and "prepareSession drv (req_site_id request) (s_siteMap stored)
             (m\<lparr>sessions := Map_set (req_site_id request) (stored\<lparr>lastActivity := now drv w\<rparr>)
                               (sessions m)\<rparr>, w1) = (ok, m2, w2)"
      and "map_of (sessions m2) (req_site_id request) = None"
  shows "execute lc drv request (m, w)
           = (\<lparr>success = False, r_message = msg_recovery_failed, r_observation = None\<rparr>, m2, w2)"
  using execute_recovery [OF assms(1-3)] assms(4) by (simp add: failed_def)

text \<open>
  C2 (the code at the failing input). The session of "hotel" sits on page 0, which is
  dead. \<^verbatim>\<open>execute\<close> with the keyword "book" finds the probe failing and prepares the session
  again: the store then holds the replacement page 3. The matched click is nevertheless
  sent to page 0: all four strategies go to the dead page and fail, and the result is
  \<^verbatim>\<open>success: true\<close> with the message "Ne uspyah da klikna", although the same click on the
  replacement page would have succeeded.
\<close>

theorem execute_recovery_runs_on_dead_page:
  "fst (execute toLowerCase simDriver ex_request (stale_manager, stale_world))
     = \<lparr>success = True, r_message = msg_click_failed, r_observation = None\<rparr>
   \<and> map_option s_page
        (map_of (sessions (fst (snd (execute toLowerCase simDriver ex_request
           (stale_manager, stale_world))))) (asc ''hotel'')) = Some 3
   \<and> events (snd (snd (execute toLowerCase simDriver ex_request (stale_manager, stale_world))))
       = [ClosePage 0, GoTo 3 (asc ''https://hotel.example'') True,
          ClickOn 0 (asc ''#book'') False,
          ClickOn 0 (asc ''text='' @ dq @ asc ''Book now'' @ dq) False,
          ClickOn 0 (asc ''button:has-text('' @ dq @ asc ''Book now'' @ dq @ asc '')'') False,
          ClickOn 0 (asc ''a:has-text('' @ dq @ asc ''Book now'' @ dq @ asc '')'') False]
   \<and> fst (click simDriver 3 (asc ''#book'') 2000
        (snd (snd (execute toLowerCase simDriver ex_request (stale_manager, stale_world))))) = True"
  by (simp add: execute_def prepareSession_def closeSession_def Map_delete_def runAction_def
      matchAction_def rule_booking_def bookingForm_def clickOn_def hasDates_def
      clickButton_def strategies_def textStrategy_def truthy_str_def normalizeUrl_def
      PATTERNS_booking_def toLowerCase_def lower_unit_def
      succeeded_def MAX_SESSIONS_def sim_defs stale_defs dq_def asc_def)

text \<open>
  C7. For a site id with no entry in the store, \<^verbatim>\<open>execute\<close> returns \<^verbatim>\<open>success: false\<close> with the
  no-session message, and neither the store nor the world changes.
\<close>

theorem execute_unknown_site:
  assumes "map_of (sessions m) (req_site_id request) = None"
  shows "execute lc drv request (m, w)
           = (\<lparr>success = False, r_message = msg_no_session, r_observation = None\<rparr>, m, w)"
  using assms by (simp add: execute_def failed_def)

theorem execute_unknown_site_witness:
  "map_of (sessions stale_manager) (req_site_id (ex_request\<lparr>req_site_id := asc ''motel''\<rparr>)) = None
   \<and> execute toLowerCase simDriver (ex_request\<lparr>req_site_id := asc ''motel''\<rparr>)
        (stale_manager, stale_world)
       = (\<lparr>success = False, r_message = msg_no_session, r_observation = None\<rparr>,
          stale_manager, stale_world)"
proof -
  have n: "map_of (sessions stale_manager) (req_site_id (ex_request\<lparr>req_site_id := asc ''motel''\<rparr>))
      = None"
    by (simp add: stale_manager_def asc_def)
  from execute_unknown_site [OF n] n show ?thesis by simp
qed

lemma closeSession_twice:
  "closeSession drv k (closeSession drv k st) = closeSession drv k st"
  by (cases st) (auto simp: closeSession_def map_of_Map_delete split: option.splits)

lemma prepareSession_after_close:
  "isReady (fst st) \<Longrightarrow>
     prepareSession drv siteId siteMap (closeSession drv siteId st)
       = prepareSession drv siteId siteMap st"
  by (simp add: prepareSession_def closeSession_twice isReady_closeSession)

text \<open>
  C10. On a ready manager, when \<^verbatim>\<open>prepareSession\<close> for an id with a session returns \<^verbatim>\<open>false\<close>,
  the id has no session afterwards: the old session was closed first (its page, then its
  context) and deleted, and the store is the old one without that id. Running the close
  beforehand changes nothing in the outcome.
\<close>

theorem prepareSession_failure_drops_session:
  assumes "isReady m" and "map_of (sessions m) siteId = Some old"
      and "prepareSession drv siteId siteMap (m, w) = (False, m', w')"
  shows "map_of (sessions m') siteId = None
       \<and> sessions m' = Map_delete siteId (sessions m)
       \<and> (store_ok m \<longrightarrow> sessions m' = Map_delete siteId (sessions m))
       \<and> closeSession drv siteId (m, w)
           = (m\<lparr>sessions := Map_delete siteId (sessions m)\<rparr>,
              case close_page drv (s_page old) w of
                (True, w1) \<Rightarrow> snd (close_context drv (s_context old) w1)
              | (False, w1) \<Rightarrow> w1)
       \<and> prepareSession drv siteId siteMap (closeSession drv siteId (m, w)) = (False, m', w')"
proof -
  from assms(1) have r: "isReady (fst (m, w))" by simp
  from prepareSession_parts [OF r assms(3)]
  have s: "sessions m' = Map_delete siteId (sessions m)" by simp
  then have n: "map_of (sessions m') siteId = None" by (simp add: map_of_Map_delete)
  have k: "store_ok m \<longrightarrow> sessions m' = Map_delete siteId (sessions m)"
    using s by simp
  have c: "closeSession drv siteId (m, w)
           = (m\<lparr>sessions := Map_delete siteId (sessions m)\<rparr>,
              case close_page drv (s_page old) w of
                (True, w1) \<Rightarrow> snd (close_context drv (s_context old) w1)
              | (False, w1) \<Rightarrow> w1)"
    using assms(2) by (simp add: closeSession_def)
  have p: "prepareSession drv siteId siteMap (closeSession drv siteId (m, w)) = (False, m', w')"
    using prepareSession_after_close [OF r] assms(3) by simp
  from n s k c p show ?thesis by (intro conjI)
qed

theorem prepareSession_failure_drops_session_witness:
  "isReady stale_manager
   \<and> map_of (sessions stale_manager) (asc ''hotel'')
       = Some \<lparr>s_page = 0, s_context = 1, s_siteMap = ex_siteMap_buttons, lastActivity = 500,
               currentUrl = asc ''https://hotel.example/''\<rparr>
   \<and> prepareSession simDriver (asc ''hotel'') ex_siteMap (stale_manager, offline_world)
       = (False, \<lparr>isReady = True, sessions = [], closing = []\<rparr>,
          offline_world\<lparr>clock := 1001, fresh := 4, closed := [0],
            events := [ClosePage 0, GoTo 3 (asc ''https://hotel.example'') False]\<rparr>)
   \<and> map_of (sessions \<lparr>isReady = True,
                 sessions = ([] :: (jstring \<times> (nat, nat) HotSession) list),
                 closing = ([] :: nat pending_close list)\<rparr>)
        (asc ''hotel'') = None"
proof -
  have r: "isReady stale_manager" by (simp add: stale_manager_def)
  have o: "map_of (sessions stale_manager) (asc ''hotel'')
       = Some \<lparr>s_page = 0, s_context = 1, s_siteMap = ex_siteMap_buttons, lastActivity = 500,
               currentUrl = asc ''https://hotel.example/''\<rparr>"
    by (simp add: stale_manager_def)
  have p: "prepareSession simDriver (asc ''hotel'') ex_siteMap (stale_manager, offline_world)
       = (False, \<lparr>isReady = True, sessions = [], closing = []\<rparr>,
          offline_world\<lparr>clock := 1001, fresh := 4, closed := [0],
            events := [ClosePage 0, GoTo 3 (asc ''https://hotel.example'') False]\<rparr>)"
    by (simp add: prepareSession_def closeSession_def Map_delete_def MAX_SESSIONS_def
        url_ex_siteMap stale_manager_def offline_world_def sim_defs)
  from prepareSession_failure_drops_session [OF r o p] r o p show ?thesis by simp
qed

end
